theory Spec2Isabelle
  imports Complex_Main
begin

section \<open>Python text primitives\<close>

text \<open>
  Python strings are modelled as \<^typ>\<open>string\<close>, one \<^typ>\<open>char\<close> per code point. The
  character classes below are those of Python on the ASCII code points; a code point
  above 127 is treated as a symbol that is neither a digit, nor whitespace, nor a letter
  with a case. The price patterns of the scrapers name the Arabic currency marker, whose
  two letters are not ASCII; two code points of the upper half stand for them, and they
  are letters.
\<close>

definition arabic_dal :: char where
  "arabic_dal = CHR 0xCF"

definition arabic_alef :: char where
  "arabic_alef = CHR 0xC5"

definition is_digit :: "char \<Rightarrow> bool" where
  \<comment> \<open>\<open>\d\<close> of \<open>re\<close>, and one character of \<open>str.isdigit\<close>\<close>
  "is_digit c = (c \<in> set ''0123456789'')"

definition is_space :: "char \<Rightarrow> bool" where
  \<comment> \<open>\<open>str.isspace\<close>, the class of \<open>str.strip\<close> and of \<open>\s\<close>: tab, line feed, vertical tab,
      form feed, carriage return, the four separators 28..31 and the blank\<close>
  "is_space c = (of_char c \<in> {9::nat, 10, 11, 12, 13, 28, 29, 30, 31, 32})"

definition is_alpha :: "char \<Rightarrow> bool" where
  "is_alpha c = (c \<in> set ''abcdefghijklmnopqrstuvwxyzABCDEFGHIJKLMNOPQRSTUVWXYZ'')"

definition is_word :: "char \<Rightarrow> bool" where
  \<comment> \<open>\<open>\w\<close>, which decides the word boundary \<open>\b\<close>\<close>
  "is_word c = (is_alpha c \<or> is_digit c \<or> c = CHR ''_'' \<or> c = arabic_dal \<or> c = arabic_alef)"

definition lower_char :: "char \<Rightarrow> char" where
  "lower_char c =
     (if c \<in> set ''ABCDEFGHIJKLMNOPQRSTUVWXYZ'' then char_of (of_char c + (32::nat)) else c)"

definition py_lower :: "string \<Rightarrow> string" where
  \<comment> \<open>\<open>s.lower()\<close>\<close>
  "py_lower s = map lower_char s"

definition py_strip :: "string \<Rightarrow> string" where
  \<comment> \<open>\<open>s.strip()\<close>\<close>
  "py_strip s = rev (dropWhile is_space (rev (dropWhile is_space s)))"

definition py_remove :: "char \<Rightarrow> string \<Rightarrow> string" where
  \<comment> \<open>\<open>s.replace(c, '')\<close> for a single character \<open>c\<close>\<close>
  "py_remove c s = filter (\<lambda>x. x \<noteq> c) s"

fun startswith :: "string \<Rightarrow> string \<Rightarrow> bool" where
  \<comment> \<open>\<open>s.startswith(p)\<close>, written \<open>startswith s p\<close>\<close>
  "startswith s [] = True"
| "startswith [] (p # ps) = False"
| "startswith (c # cs) (p # ps) = (c = p \<and> startswith cs ps)"

fun py_in :: "string \<Rightarrow> string \<Rightarrow> bool" where
  \<comment> \<open>\<open>needle in hay\<close>, written \<open>py_in needle hay\<close>\<close>
  "py_in needle [] = (needle = [])"
| "py_in needle (h # hs) = (startswith (h # hs) needle \<or> py_in needle hs)"

fun split_on :: "char \<Rightarrow> string \<Rightarrow> string list" where
  \<comment> \<open>\<open>s.split(c)\<close> for a single character \<open>c\<close>: always at least one piece\<close>
  "split_on c [] = [[]]"
| "split_on c (x # xs) =
     (if x = c then [] # split_on c xs
      else (case split_on c xs of [] \<Rightarrow> [[x]] | y # ys \<Rightarrow> (x # y) # ys))"

definition py_isdigit :: "string \<Rightarrow> bool" where
  \<comment> \<open>\<open>s.isdigit()\<close>: false on the empty string\<close>
  "py_isdigit s = (s \<noteq> [] \<and> list_all is_digit s)"

definition digit_val :: "char \<Rightarrow> nat" where
  "digit_val c = of_char c - 48"

definition py_int :: "string \<Rightarrow> nat" where
  \<comment> \<open>\<open>int(s)\<close> on a string of decimal digits; every call of the scrapers is guarded
      by \<open>isdigit\<close> or applied to a \<open>\d\<close> match\<close>
  "py_int s = foldl (\<lambda>n c. 10 * n + digit_val c) 0 s"

fun collapse_run :: "bool \<Rightarrow> string \<Rightarrow> string" where
  \<comment> \<open>the flag says that the previous character was whitespace\<close>
  "collapse_run in_run [] = []"
| "collapse_run in_run (c # cs) =
     (if is_space c then (if in_run then collapse_run True cs else CHR '' '' # collapse_run True cs)
      else c # collapse_run False cs)"

definition collapse_ws :: "string \<Rightarrow> string" where
  \<comment> \<open>\<open>re.sub(r'\s+', ' ', s)\<close>: every run of whitespace becomes one blank\<close>
  "collapse_ws s = collapse_run False s"

section \<open>Python floats\<close>

text \<open>
  A float is its exact decimal value, or one of the three special values. Rounding to
  the nearest double is not modelled: it is monotone and keeps zero, and no property
  below depends on more. \<open>fle a b\<close> is \<open>a <= b\<close> and \<open>fgt a b\<close> is \<open>a > b\<close>; a
  comparison with \<open>nan\<close> is false.
\<close>

datatype pyfloat = Fin rat | PInf | NInf | NaN

fun fle :: "pyfloat \<Rightarrow> pyfloat \<Rightarrow> bool" where
  "fle NaN b = False"
| "fle a NaN = False"
| "fle NInf b = True"
| "fle a PInf = True"
| "fle PInf b = False"
| "fle a NInf = False"
| "fle (Fin x) (Fin y) = (x \<le> y)"

definition fgt :: "pyfloat \<Rightarrow> pyfloat \<Rightarrow> bool" where
  "fgt a b = (a \<noteq> NaN \<and> b \<noteq> NaN \<and> \<not> fle a b)"

fun float_truthy :: "pyfloat \<Rightarrow> bool" where
  \<comment> \<open>\<open>bool(x)\<close>: only zero is false\<close>
  "float_truthy (Fin x) = (x \<noteq> 0)"
| "float_truthy a = True"

fun truthy :: "pyfloat option \<Rightarrow> bool" where
  \<comment> \<open>\<open>bool(x)\<close> for an \<open>Optional[float]\<close>\<close>
  "truthy None = False"
| "truthy (Some a) = float_truthy a"

text \<open>
  \<open>float(s)\<close> follows the grammar of the language reference: surrounding whitespace
  (for \<open>float\<close> the blank and the characters 9..13) is dropped, then an optional sign, then \<open>inf\<close>, \<open>infinity\<close> or \<open>nan\<close> in any case, or a
  decimal number with an optional exponent; a digit part is digits with single
  underscores between them. \<open>None\<close> is the \<open>ValueError\<close>.
\<close>

definition is_float_space :: "char \<Rightarrow> bool" where
  "is_float_space c = (of_char c \<in> {9::nat, 10, 11, 12, 13, 32})"

definition float_strip :: "string \<Rightarrow> string" where
  "float_strip s = rev (dropWhile is_float_space (rev (dropWhile is_float_space s)))"

fun digitpart_rest :: "string \<Rightarrow> bool" where
  "digitpart_rest [] = True"
| "digitpart_rest (c # cs) =
     (if is_digit c then digitpart_rest cs
      else if c = CHR ''_'' then
        (case cs of [] \<Rightarrow> False | d # ds \<Rightarrow> is_digit d \<and> digitpart_rest ds)
      else False)"

definition digitpart :: "string \<Rightarrow> bool" where
  "digitpart s = (case s of [] \<Rightarrow> False | c # cs \<Rightarrow> is_digit c \<and> digitpart_rest cs)"

definition digits_of :: "string \<Rightarrow> string" where
  "digits_of s = py_remove (CHR ''_'') s"

definition float_mantissa :: "string \<Rightarrow> rat option" where
  \<comment> \<open>\<open>[digitpart] "." digitpart | digitpart ["."]\<close>\<close>
  "float_mantissa m =
     (let ip = takeWhile (\<lambda>c. c \<noteq> CHR ''.'') m;
          r = dropWhile (\<lambda>c. c \<noteq> CHR ''.'') m
      in case r of
           [] \<Rightarrow> (if digitpart ip then Some (of_nat (py_int (digits_of ip))) else None)
         | _ # fp \<Rightarrow>
             (if (ip = [] \<and> digitpart fp) \<or> (digitpart ip \<and> (fp = [] \<or> digitpart fp))
              then Some (of_nat (py_int (digits_of ip))
                         + of_nat (py_int (digits_of fp)) / 10 ^ length (digits_of fp))
              else None))"

definition float_exponent :: "string \<Rightarrow> int option" where
  \<comment> \<open>\<open>[sign] digitpart\<close>, the text after the \<open>e\<close>\<close>
  "float_exponent x =
     (case x of
        [] \<Rightarrow> None
      | c # cs \<Rightarrow>
          (if c = CHR ''-'' then (if digitpart cs then Some (- int (py_int (digits_of cs))) else None)
           else if c = CHR ''+'' then (if digitpart cs then Some (int (py_int (digits_of cs))) else None)
           else (if digitpart x then Some (int (py_int (digits_of x))) else None)))"

definition float_number :: "string \<Rightarrow> rat option" where
  \<comment> \<open>\<open>number [exponent]\<close>\<close>
  "float_number u =
     (let m = takeWhile (\<lambda>c. c \<noteq> CHR ''e'' \<and> c \<noteq> CHR ''E'') u;
          x = dropWhile (\<lambda>c. c \<noteq> CHR ''e'' \<and> c \<noteq> CHR ''E'') u
      in case float_mantissa m of
           None \<Rightarrow> None
         | Some q \<Rightarrow>
             (case x of
                [] \<Rightarrow> Some q
              | _ # ex \<Rightarrow>
                  (case float_exponent ex of
                     None \<Rightarrow> None
                   | Some k \<Rightarrow> Some (if 0 \<le> k then q * 10 ^ nat k else q / 10 ^ nat (- k)))))"

definition py_float :: "string \<Rightarrow> pyfloat option" where
  "py_float s =
     (let t = float_strip s;
          neg = (case t of [] \<Rightarrow> False | c # _ \<Rightarrow> c = CHR ''-'');
          u = (case t of [] \<Rightarrow> [] | c # cs \<Rightarrow> if c = CHR ''-'' \<or> c = CHR ''+'' then cs else t);
          l = py_lower u
      in if l = ''inf'' \<or> l = ''infinity'' then Some (if neg then NInf else PInf)
         else if l = ''nan'' then Some NaN
         else (case float_number u of
                 None \<Rightarrow> None
               | Some q \<Rightarrow> Some (Fin (if neg then - q else q))))"

section \<open>Regular expressions\<close>

text \<open>
  The patterns of the scrapers are matched by a backtracking matcher in the priority
  order of \<open>re\<close>: alternatives left to right, repetitions greedy. A match state is the
  character before the position (for \<open>\b\<close> and \<open>^\<close>), the text still to read and the
  text of group 1. \<open>ms r st\<close> lists the states in which a match of \<open>r\<close> from \<open>st\<close> can
  end, best first. Every repeated pattern of the scrapers reads at least one character,
  so an unbounded repetition runs at most as often as there are characters left.
\<close>

datatype mstate = MState (m_prev: "char option") (m_rest: string) (m_group: "string option")

datatype rx =
    Lit char                  \<comment> \<open>a character\<close>
  | LitI char                 \<comment> \<open>a character under \<open>re.IGNORECASE\<close>\<close>
  | Digit                     \<comment> \<open>\<open>\d\<close>\<close>
  | NonDigit                  \<comment> \<open>\<open>[^\d]\<close>\<close>
  | Space                     \<comment> \<open>\<open>\s\<close>\<close>
  | Cat rx rx
  | Alt rx rx
  | Rep nat "nat option" rx   \<comment> \<open>greedy \<open>r{lo,hi}\<close>; no upper bound is \<open>None\<close>\<close>
  | Group rx                  \<comment> \<open>the capturing group 1\<close>
  | Ahead rx                  \<comment> \<open>\<open>(?=r)\<close>\<close>
  | WordB                     \<comment> \<open>\<open>\b\<close>\<close>
  | Bol                       \<comment> \<open>\<open>^\<close>\<close>
  | Eol                       \<comment> \<open>\<open>$\<close>: the end, or before a final line feed\<close>

definition read_char :: "(char \<Rightarrow> bool) \<Rightarrow> mstate \<Rightarrow> mstate list" where
  "read_char P st =
     (case m_rest st of
        [] \<Rightarrow> []
      | x # xs \<Rightarrow> if P x then [MState (Some x) xs (m_group st)] else [])"

fun reps :: "(mstate \<Rightarrow> mstate list) \<Rightarrow> nat \<Rightarrow> nat \<Rightarrow> mstate \<Rightarrow> mstate list" where
  \<comment> \<open>at least \<open>lo\<close> and at most \<open>n\<close> rounds of \<open>f\<close>, one more round tried first\<close>
  "reps f lo 0 st = (if lo = 0 then [st] else [])"
| "reps f lo (Suc n) st =
     concat (map (reps f (lo - 1) n) (f st)) @ (if lo = 0 then [st] else [])"

definition at_word_boundary :: "mstate \<Rightarrow> bool" where
  "at_word_boundary st =
     ((case m_prev st of None \<Rightarrow> False | Some c \<Rightarrow> is_word c)
      \<noteq> (case m_rest st of [] \<Rightarrow> False | c # _ \<Rightarrow> is_word c))"

primrec ms :: "rx \<Rightarrow> mstate \<Rightarrow> mstate list" where
  "ms (Lit c) st = read_char (\<lambda>x. x = c) st"
| "ms (LitI c) st = read_char (\<lambda>x. lower_char x = lower_char c) st"
| "ms Digit st = read_char is_digit st"
| "ms NonDigit st = read_char (\<lambda>x. \<not> is_digit x) st"
| "ms Space st = read_char is_space st"
| "ms (Cat a b) st = concat (map (ms b) (ms a st))"
| "ms (Alt a b) st = ms a st @ ms b st"
| "ms (Rep lo hi r) st =
     reps (ms r) lo (case hi of None \<Rightarrow> length (m_rest st) | Some h \<Rightarrow> h) st"
| "ms (Group r) st =
     map (\<lambda>st'. MState (m_prev st') (m_rest st')
                  (Some (take (length (m_rest st) - length (m_rest st')) (m_rest st))))
         (ms r st)"
| "ms (Ahead r) st = (if ms r st = [] then [] else [st])"
| "ms WordB st = (if at_word_boundary st then [st] else [])"
| "ms Bol st = (if m_prev st = None then [st] else [])"
| "ms Eol st = (if m_rest st = [] \<or> m_rest st = [CHR 0x0A] then [st] else [])"

definition first_match :: "rx \<Rightarrow> char option \<Rightarrow> string \<Rightarrow> mstate option" where
  \<comment> \<open>the best match that starts at this position\<close>
  "first_match r p s = (case ms r (MState p s None) of [] \<Rightarrow> None | st # _ \<Rightarrow> Some st)"

fun search_at :: "rx \<Rightarrow> char option \<Rightarrow> string \<Rightarrow> mstate option" where
  "search_at r p [] = first_match r p []"
| "search_at r p (c # cs) =
     (case first_match r p (c # cs) of
        None \<Rightarrow> search_at r (Some c) cs
      | Some st \<Rightarrow> Some st)"

definition re_search :: "rx \<Rightarrow> string \<Rightarrow> mstate option" where
  \<comment> \<open>\<open>re.search(r, s)\<close>: the leftmost match\<close>
  "re_search r s = search_at r None s"

definition re_match :: "rx \<Rightarrow> string \<Rightarrow> mstate option" where
  \<comment> \<open>\<open>re.match(r, s)\<close>: a match at the start\<close>
  "re_match r s = first_match r None s"

definition group1 :: "mstate \<Rightarrow> string" where
  \<comment> \<open>\<open>match.group(1)\<close>; group 1 takes part in every match of the patterns below\<close>
  "group1 st = (case m_group st of None \<Rightarrow> [] | Some g \<Rightarrow> g)"

fun findall_at :: "rx \<Rightarrow> nat \<Rightarrow> char option \<Rightarrow> string \<Rightarrow> string list" where
  \<comment> \<open>\<open>re.findall\<close> for a pattern with one group: the matches from left to right, none
      overlapping; the counter is the number of characters of the last match still to
      pass\<close>
  "findall_at r k p [] = []"
| "findall_at r (Suc k) p (c # cs) = findall_at r k (Some c) cs"
| "findall_at r 0 p (c # cs) =
     (case first_match r p (c # cs) of
        None \<Rightarrow> findall_at r 0 (Some c) cs
      | Some st \<Rightarrow>
          group1 st # findall_at r (length (c # cs) - length (m_rest st) - 1) (Some c) cs)"

definition re_findall :: "rx \<Rightarrow> string \<Rightarrow> string list" where
  "re_findall r s = findall_at r 0 None s"

fun lits :: "string \<Rightarrow> rx" where
  \<comment> \<open>a literal word under \<open>re.IGNORECASE\<close>\<close>
  "lits [] = Rep 0 (Some 0) Digit"
| "lits [c] = LitI c"
| "lits (c # cs) = Cat (LitI c) (lits cs)"

definition rx_currency :: rx where
  \<comment> \<open>\<open>(?:aed|\<dots>)\<close> with the Arabic marker dal, dot, alef as second alternative\<close>
  "rx_currency = Alt (lits ''aed'') (Cat (Lit arabic_dal) (Cat (Lit (CHR ''.'')) (Lit arabic_alef)))"

definition rx_spaces :: rx where
  \<comment> \<open>\<open>\s*\<close>\<close>
  "rx_spaces = Rep 0 None Space"

section \<open>Records of the scrapers\<close>

text \<open>
  \<open>ProductInfo\<close> and \<open>SearchItem\<close> are the dataclasses of the three scraper modules. Of
  \<open>ProductInfo\<close> the fields that the price ceiling and the serialised budget flag read are
  kept.
\<close>

record ProductInfo =
  title :: string
  price :: string
  price_value :: "pyfloat option"

record SearchItem =
  name :: string
  max_price :: "pyfloat option"

section \<open>The page and its elements\<close>

text \<open>
  The browser is an input of the scrapers. An element gives its visible text and the
  answers of \<open>find_element\<close> and \<open>find_elements\<close> for a CSS selector; \<open>None\<close> is a raised
  exception (\<open>NoSuchElementException\<close> for \<open>find_element\<close>, a stale element for
  \<open>text\<close>). A found element gives its text and the answer of \<open>get_attribute\<close>.
\<close>

record node =
  n_text :: "string option"
  n_attr :: "string \<Rightarrow> string option"

record element =
  e_text :: "string option"
  e_find :: "string \<Rightarrow> node option"
  e_find_all :: "string \<Rightarrow> node list option"

record page =
  loads :: bool                                   \<comment> \<open>\<open>driver.get\<close> returns\<close>
  page_title :: string
  page_source_len :: nat
  find_css :: "string \<Rightarrow> element list option"   \<comment> \<open>\<open>find_elements(By.CSS_SELECTOR, s)\<close>\<close>
  find_divs :: "element list option"              \<comment> \<open>\<open>find_elements(By.TAG_NAME, "div")\<close>\<close>

definition any_keyword :: "string list \<Rightarrow> string \<Rightarrow> bool" where
  \<comment> \<open>\<open>any(keyword.lower() in text.lower() for keyword in kws)\<close>\<close>
  "any_keyword kws text = list_ex (\<lambda>k. py_in (py_lower k) (py_lower text)) kws"

definition str_truthy :: "string option \<Rightarrow> bool" where
  \<comment> \<open>\<open>bool(s)\<close> for an \<open>Optional[str]\<close>\<close>
  "str_truthy t = (case t of None \<Rightarrow> False | Some s \<Rightarrow> s \<noteq> [])"

definition longer_than :: "nat \<Rightarrow> string option \<Rightarrow> bool" where
  \<comment> \<open>\<open>t and len(t) > n\<close>\<close>
  "longer_than n t = (case t of None \<Rightarrow> False | Some s \<Rightarrow> s \<noteq> [] \<and> n < length s)"

definition text_lines :: "string \<Rightarrow> string list" where
  \<comment> \<open>\<open>[line.strip() for line in full_text.split('\n') if line.strip()]\<close>\<close>
  "text_lines full_text = filter (\<lambda>l. l \<noteq> []) (map py_strip (split_on (CHR 0x0A) full_text))"

definition only_digits :: "string \<Rightarrow> bool" where
  \<comment> \<open>\<open>line.replace('.', '').replace(',', '').replace(' ', '').isdigit()\<close>\<close>
  "only_digits line =
     py_isdigit (py_remove (CHR '' '') (py_remove (CHR '','') (py_remove (CHR ''.'') line)))"

definition clean_title :: "nat \<Rightarrow> string \<Rightarrow> string" where
  \<comment> \<open>\<open>re.sub(r'\s+', ' ', title).strip()\<close>, then the cut to \<open>n\<close> characters\<close>
  "clean_title n t =
     (let s = py_strip (collapse_ws t) in if n < length s then take n s @ ''...'' else s)"

definition price_not_available :: string where
  "price_not_available = ''Price not available''"

section \<open>The price normaliser\<close>

definition price_chars :: "string \<Rightarrow> string" where
  \<comment> \<open>\<open>re.sub(r'[^\d.,]', '', price_str)\<close>: the digits, dots and commas of the string\<close>
  "price_chars price_str =
     filter (\<lambda>c. is_digit c \<or> c = CHR ''.'' \<or> c = CHR '','') price_str"

definition extract_numeric_price :: "string \<Rightarrow> pyfloat option" where
  \<comment> \<open>the same method in the three scrapers; both branches of its \<open>if\<close> return
      \<open>float(clean_price)\<close>, and the \<open>ValueError\<close> is caught\<close>
  "extract_numeric_price price_str =
     (let clean_price = price_chars price_str;
          clean_price = py_remove (CHR '','') clean_price
      in py_float clean_price)"

definition decimal_number :: "string \<Rightarrow> bool" where
  \<comment> \<open>the decimal numbers, as the specification names them: digits with at most one
      point among them, and at least one digit\<close>
  "decimal_number s =
     (list_all (\<lambda>c. is_digit c \<or> c = CHR ''.'') s \<and>
      length (filter (\<lambda>c. c = CHR ''.'') s) \<le> 1 \<and> list_ex is_digit s)"

section \<open>Noon: the record builder\<close>

text \<open>
  Of \<open>extract_simple_product_info\<close> the title and the price are modelled. The link, the
  image and the rating are found by cascades of the same shape, each attempt in its own
  \<open>try\<close>; they read nothing of the title and the price and write nothing to them.
\<close>

definition noon_title_selectors :: "string list" where
  "noon_title_selectors =
     [''[data-qa='plp-product-box-name']'', ''.ProductDetailsSection_title__JorAV'',
      ''h2[title]'', ''h2'', ''[class*='title']'']"

fun noon_title_cascade :: "element \<Rightarrow> string list \<Rightarrow> string option \<Rightarrow> string option" where
  \<comment> \<open>the loop over \<open>title_selectors\<close>; the last argument is the variable \<open>title\<close>, which
      an attempt that does not qualify leaves assigned\<close>
  "noon_title_cascade e [] t = t"
| "noon_title_cascade e (sel # sels) t =
     (case e_find e sel of
        None \<Rightarrow> noon_title_cascade e sels t
      | Some te \<Rightarrow>
          (case n_text te of
             None \<Rightarrow> noon_title_cascade e sels t
           | Some tx \<Rightarrow>
               (let t' = (if py_strip tx \<noteq> [] then Some (py_strip tx) else n_attr te ''title'')
                in if longer_than 10 t' then t' else noon_title_cascade e sels t')))"

definition noon_title_line :: "string \<Rightarrow> bool" where
  "noon_title_line line =
     (10 < length line \<and> \<not> only_digits line \<and> \<not> py_in ''aed'' (py_lower line) \<and>
      \<not> py_in ''%'' line \<and> \<not> py_in ''off'' (py_lower line))"

definition noon_title :: "element \<Rightarrow> string \<Rightarrow> string" where
  "noon_title e full_text =
     (let t = noon_title_cascade e noon_title_selectors None;
          t = (if \<not> str_truthy t
               then (case find noon_title_line (text_lines full_text) of
                       None \<Rightarrow> t | Some line \<Rightarrow> Some line)
               else t);
          t = (case t of None \<Rightarrow> ''Unknown Product''
               | Some s \<Rightarrow> if s = [] then ''Unknown Product'' else s)
      in clean_title 100 t)"

definition noon_price_selectors :: "string list" where
  "noon_price_selectors =
     [''.Price_amount__2sXa7'', ''[data-qa='plp-product-box-price'] strong'',
      ''.Price_sellingPrice__HFKZf strong'', ''[class*='Price_amount']'',
      ''[class*='sellingPrice'] strong'', ''[class*='price'] strong'']"

fun noon_price_cascade :: "element \<Rightarrow> string list \<Rightarrow> string \<Rightarrow> string" where
  \<comment> \<open>the loop over \<open>price_selectors\<close>; the last argument is the variable \<open>price\<close>\<close>
  "noon_price_cascade e [] p = p"
| "noon_price_cascade e (sel # sels) p =
     (case e_find e sel of
        None \<Rightarrow> noon_price_cascade e sels p
      | Some pe \<Rightarrow>
          (case n_text pe of
             None \<Rightarrow> noon_price_cascade e sels p
           | Some tx \<Rightarrow>
               (let price_text = py_strip tx
                in if price_text \<noteq> [] \<and>
                      py_isdigit (py_remove (CHR ''.'') (py_remove (CHR '','') price_text))
                   then (if \<not> py_in ''aed'' (py_lower price_text)
                         then ''AED '' @ price_text else price_text)
                   else noon_price_cascade e sels p)))"

definition rx_grouped_number :: rx where
  \<comment> \<open>\<open>\d{1,3}(?:,\d{3})*\<close>\<close>
  "rx_grouped_number =
     Cat (Rep 1 (Some 3) Digit) (Rep 0 None (Cat (Lit (CHR '','')) (Rep 3 (Some 3) Digit)))"

definition rx_cents :: rx where
  \<comment> \<open>\<open>(?:\.\d{2})?\<close>\<close>
  "rx_cents = Rep 0 (Some 1) (Cat (Lit (CHR ''.'')) (Rep 2 (Some 2) Digit))"

definition noon_price_patterns :: "rx list" where
  \<comment> \<open>number then currency, currency then number, and a bare number before the currency\<close>
  "noon_price_patterns =
     [Cat (Group (Cat rx_grouped_number rx_cents)) (Cat rx_spaces rx_currency),
      Cat rx_currency (Cat rx_spaces (Group (Cat rx_grouped_number rx_cents))),
      Cat WordB (Cat (Group rx_grouped_number) (Cat WordB (Ahead (Cat rx_spaces rx_currency))))]"

fun noon_pattern_price :: "string \<Rightarrow> rx list \<Rightarrow> string \<Rightarrow> string" where
  \<comment> \<open>the loop over \<open>price_patterns\<close>\<close>
  "noon_pattern_price full_text [] p = p"
| "noon_pattern_price full_text (r # rs) p =
     (case re_search r full_text of
        None \<Rightarrow> noon_pattern_price full_text rs p
      | Some m \<Rightarrow>
          (let price_num = group1 m;
               clean_num = py_remove (CHR ''.'') (py_remove (CHR '','') price_num)
           in if py_isdigit clean_num \<and> 50 < py_int clean_num
              then ''AED '' @ price_num
              else noon_pattern_price full_text rs p))"

definition noon_plausible_number :: "string \<Rightarrow> bool" where
  "noon_plausible_number num =
     (let clean_num = py_remove (CHR '','') num
      in py_isdigit clean_num \<and> 100 \<le> py_int clean_num \<and> py_int clean_num \<le> 50000)"

fun noon_last_resort :: "string list \<Rightarrow> string \<Rightarrow> string" where
  \<comment> \<open>the loop over the lines of the text, the first plausible number of a line\<close>
  "noon_last_resort [] p = p"
| "noon_last_resort (line # ls) p =
     (case find noon_plausible_number (re_findall (Cat WordB (Cat (Group rx_grouped_number) WordB)) line) of
        None \<Rightarrow> noon_last_resort ls p
      | Some num \<Rightarrow> ''AED '' @ num)"

definition noon_price :: "element \<Rightarrow> string \<Rightarrow> string" where
  "noon_price e full_text =
     (let p = noon_price_cascade e noon_price_selectors price_not_available;
          p = (if p = price_not_available
               then (let q = noon_pattern_price full_text noon_price_patterns p
                     in if q = price_not_available
                        then noon_last_resort (split_on (CHR 0x0A) full_text) q
                        else q)
               else p)
      in p)"

definition extract_simple_product_info :: "element \<Rightarrow> string \<Rightarrow> ProductInfo option" where
  \<comment> \<open>\<open>None\<close> is the return of \<open>None\<close>, for a short text and from the outer handler\<close>
  "extract_simple_product_info e search_term =
     (case e_text e of
        None \<Rightarrow> None
      | Some tx \<Rightarrow>
          (let full_text = py_strip tx
           in if length full_text < 10 then None
              else (let p = noon_price e full_text
                    in Some \<lparr> title = noon_title e full_text, price = p,
                              price_value = extract_numeric_price p \<rparr>)))"

section \<open>The price ceiling\<close>

definition price_le :: "pyfloat option \<Rightarrow> pyfloat option \<Rightarrow> bool" where
  \<comment> \<open>\<open>price_value <= max_price\<close>, evaluated only where both are truthy\<close>
  "price_le pv mp = (case (pv, mp) of (Some v, Some m) \<Rightarrow> fle v m | _ \<Rightarrow> False)"

fun filter_products :: "pyfloat option \<Rightarrow> ProductInfo option list \<Rightarrow> ProductInfo list" where
  \<comment> \<open>the loop of \<open>search_item\<close> over the built records, the same text in the three
      scrapers: a record that is \<open>None\<close> is skipped, a record over the ceiling is dropped\<close>
  "filter_products mp [] = []"
| "filter_products mp (None # rs) = filter_products mp rs"
| "filter_products mp (Some product_info # rs) =
     (if truthy mp \<and> truthy (price_value product_info)
      then (if price_le (price_value product_info) mp
            then product_info # filter_products mp rs
            else filter_products mp rs)
      else product_info # filter_products mp rs)"

section \<open>Noon: the search\<close>

definition noon_class_selectors :: "string list" where
  "noon_class_selectors =
     [''[data-qa='plp-product-box']'', ''.ProductBoxLinkHandler_linkWrapper__b0qZ9'',
      ''[class*='product']'', ''[class*='ProductBox']'', ''[class*='item']'',
      ''[class*='card']'']"

definition noon_plausible :: "string \<Rightarrow> bool" where
  "noon_plausible text =
     (30 < length text \<and> length text < 1000 \<and>
      any_keyword [''iphone'', ''samsung'', ''apple'', ''gb'', ''pro'', ''max'', ''plus'',
                   ''aed'', ''price'', ''rating'', ''review''] text)"

fun noon_collect :: "element list \<Rightarrow> element list \<Rightarrow> element list \<times> bool" where
  \<comment> \<open>the inner loop over the elements of one selector: the list \<open>potential_products\<close>
      after it, and whether it ran to its end (an element whose text raises ends it)\<close>
  "noon_collect [] acc = (acc, True)"
| "noon_collect (el # els) acc =
     (case e_text el of
        None \<Rightarrow> (acc, False)
      | Some tx \<Rightarrow>
          (if noon_plausible (py_strip tx) then noon_collect els (acc @ [el])
           else noon_collect els acc))"

fun noon_strategy :: "page \<Rightarrow> string list \<Rightarrow> element list \<Rightarrow> element list" where
  \<comment> \<open>Strategy 1: the loop over \<open>class_selectors\<close>\<close>
  "noon_strategy pg [] acc = acc"
| "noon_strategy pg (sel # sels) acc =
     (case find_css pg sel of
        None \<Rightarrow> noon_strategy pg sels acc
      | Some els \<Rightarrow>
          (case noon_collect els acc of
             (acc', finished) \<Rightarrow>
               if finished \<and> acc' \<noteq> [] then acc' else noon_strategy pg sels acc'))"

fun noon_div_scan :: "string \<Rightarrow> element list \<Rightarrow> element list \<Rightarrow> element list" where
  \<comment> \<open>Strategy 2: the loop over all \<open>div\<close>s, left at five\<close>
  "noon_div_scan item_name [] acc = acc"
| "noon_div_scan item_name (d # ds) acc =
     (case e_text d of
        None \<Rightarrow> noon_div_scan item_name ds acc
      | Some tx \<Rightarrow>
          (let text = py_strip tx
           in if 30 < length text \<and> length text < 500 \<and>
                 any_keyword [item_name, ''iphone'', ''samsung'', ''aed''] text
              then (if 5 \<le> length (acc @ [d]) then acc @ [d]
                    else noon_div_scan item_name ds (acc @ [d]))
              else noon_div_scan item_name ds acc))"

definition noon_potential_products :: "page \<Rightarrow> string \<Rightarrow> element list option" where
  \<comment> \<open>\<open>potential_products\<close> before the extraction loop; \<open>None\<close>: the search for the
      \<open>div\<close>s raised\<close>
  "noon_potential_products pg item_name =
     (let pp = noon_strategy pg noon_class_selectors []
      in if pp = [] then (case find_divs pg of
                            None \<Rightarrow> None
                          | Some all_divs \<Rightarrow> Some (noon_div_scan item_name all_divs []))
         else Some pp)"

definition noon_search_item :: "page \<Rightarrow> SearchItem \<Rightarrow> ProductInfo list" where
  \<comment> \<open>\<open>SimpleNoonScraper.search_item\<close>; every exception ends in \<open>return []\<close>\<close>
  "noon_search_item pg search_item =
     (if \<not> loads pg then []
      else if py_in ''can't be reached'' (py_lower (page_title pg)) \<or>
              py_in ''error'' (py_lower (page_title pg)) then []
      else if page_source_len pg < 1000 then []
      else (case noon_potential_products pg (name search_item) of
              None \<Rightarrow> []
            | Some potential_products \<Rightarrow>
                filter_products (max_price search_item)
                  (map (\<lambda>el. extract_simple_product_info el (name search_item))
                       (take 5 potential_products))))"

section \<open>Amazon: the record builder and the search\<close>

text \<open>
  Of \<open>extract_amazon_product_info\<close> the title, the price and the numeric price are
  modelled; the other fields come from cascades that touch none of the three.
\<close>

definition amazon_title_selectors :: "string list" where
  "amazon_title_selectors =
     [''h2 a span'', ''.a-size-base-plus'', ''h2.a-size-base-plus span'',
      ''[data-cy='title-recipe'] h2 span'', ''h2 span'', ''.s-line-clamp-4 span'',
      ''a[class*='s-link-style'] span'']"

fun amazon_title_cascade :: "element \<Rightarrow> string list \<Rightarrow> string option \<Rightarrow> string option" where
  "amazon_title_cascade e [] t = t"
| "amazon_title_cascade e (sel # sels) t =
     (case e_find e sel of
        None \<Rightarrow> amazon_title_cascade e sels t
      | Some te \<Rightarrow>
          (case n_text te of
             None \<Rightarrow> amazon_title_cascade e sels t
           | Some tx \<Rightarrow>
               (let t' = Some (py_strip tx)
                in if longer_than 10 t' then t' else amazon_title_cascade e sels t')))"

definition amazon_title_line :: "string \<Rightarrow> bool" where
  "amazon_title_line line =
     (10 < length line \<and> length line < 200 \<and> \<not> only_digits line \<and>
      \<not> py_in ''aed'' (py_lower line) \<and> \<not> py_in ''%'' line \<and>
      \<not> py_in ''delivery'' (py_lower line) \<and> \<not> py_in ''add to cart'' (py_lower line) \<and>
      \<not> py_in ''only'' (py_lower line) \<and> \<not> py_in ''left'' (py_lower line))"

definition amazon_title :: "element \<Rightarrow> string \<Rightarrow> string" where
  "amazon_title e full_text =
     (let t = amazon_title_cascade e amazon_title_selectors None;
          t = (if \<not> str_truthy t
               then (case find amazon_title_line (text_lines full_text) of
                       None \<Rightarrow> t | Some line \<Rightarrow> Some line)
               else t);
          t = (case t of None \<Rightarrow> ''Unknown Product''
               | Some s \<Rightarrow> if s = [] then ''Unknown Product'' else s)
      in clean_title 150 t)"

definition amazon_price_selectors :: "string list" where
  "amazon_price_selectors =
     [''.a-price-whole'', ''.a-price .a-price-whole'',
      ''[data-cy='price-recipe'] .a-price-whole'', ''.a-price-symbol + .a-price-whole'',
      ''.a-offscreen'', ''[class*='a-price'] .a-price-whole'']"

definition rx_decimal :: rx where
  \<comment> \<open>\<open>^\d+(\.\d+)?$\<close>\<close>
  "rx_decimal =
     Cat Bol (Cat (Rep 1 None Digit)
       (Cat (Rep 0 (Some 1) (Cat (Lit (CHR ''.'')) (Rep 1 None Digit))) Eol))"

fun amazon_price_cascade ::
  "element \<Rightarrow> string list \<Rightarrow> string \<times> pyfloat option \<Rightarrow> string \<times> pyfloat option" where
  \<comment> \<open>the loop over \<open>price_selectors\<close>; the last argument is the pair of the variables
      \<open>price\<close> and \<open>price_value\<close>. The whole part is joined with the fraction part where
      there is one.\<close>
  "amazon_price_cascade e [] pv = pv"
| "amazon_price_cascade e (sel # sels) pv =
     (case e_find e sel of
        None \<Rightarrow> amazon_price_cascade e sels pv
      | Some pe \<Rightarrow>
          (case n_text pe of
             None \<Rightarrow> amazon_price_cascade e sels pv
           | Some tx \<Rightarrow>
               (let whole_price = py_strip tx;
                    price_text =
                      (case e_find e ''.a-price-fraction'' of
                         None \<Rightarrow> whole_price
                       | Some fe \<Rightarrow>
                           (case n_text fe of
                              None \<Rightarrow> whole_price
                            | Some ftx \<Rightarrow> whole_price @ ''.'' @ py_strip ftx))
                in if price_text \<noteq> [] \<and>
                      re_match rx_decimal (py_remove (CHR '','') price_text) \<noteq> None
                   then (case py_float (py_remove (CHR '','') price_text) of
                           None \<Rightarrow> amazon_price_cascade e sels (''AED '' @ price_text, snd pv)
                         | Some v \<Rightarrow> (''AED '' @ price_text, Some v))
                   else amazon_price_cascade e sels pv)))"

definition rx_offscreen :: rx where
  \<comment> \<open>\<open>aed[^\d]*(\d+(?:\.\d+)?)\<close>, searched in lowered text without a flag\<close>
  "rx_offscreen =
     Cat (Lit (CHR ''a'')) (Cat (Lit (CHR ''e'')) (Cat (Lit (CHR ''d''))
       (Cat (Rep 0 None NonDigit)
         (Group (Cat (Rep 1 None Digit)
                     (Rep 0 (Some 1) (Cat (Lit (CHR ''.'')) (Rep 1 None Digit))))))))"

fun amazon_offscreen ::
  "node list \<Rightarrow> string \<times> pyfloat option \<Rightarrow> string \<times> pyfloat option" where
  \<comment> \<open>the loop over the \<open>.a-offscreen\<close> elements; an exception leaves it with the
      variables as they are\<close>
  "amazon_offscreen [] pv = pv"
| "amazon_offscreen (off # offs) pv =
     (case n_text off of
        None \<Rightarrow> pv
      | Some tx \<Rightarrow>
          (let offscreen_text = py_strip tx
           in if py_in ''aed'' (py_lower offscreen_text)
              then (case re_search rx_offscreen (py_lower offscreen_text) of
                      None \<Rightarrow> amazon_offscreen offs pv
                    | Some m \<Rightarrow>
                        (case py_float (group1 m) of
                           None \<Rightarrow> (''AED '' @ group1 m, snd pv)
                         | Some v \<Rightarrow> (''AED '' @ group1 m, Some v)))
              else amazon_offscreen offs pv))"

definition amazon_price :: "element \<Rightarrow> string \<times> pyfloat option" where
  "amazon_price e =
     (let pv = amazon_price_cascade e amazon_price_selectors (price_not_available, None)
      in if fst pv = price_not_available
         then (case e_find_all e ''.a-offscreen'' of
                 None \<Rightarrow> pv
               | Some offscreen_elements \<Rightarrow> amazon_offscreen offscreen_elements pv)
         else pv)"

definition extract_amazon_product_info :: "element \<Rightarrow> string \<Rightarrow> ProductInfo option" where
  "extract_amazon_product_info e search_term =
     (case e_text e of
        None \<Rightarrow> None
      | Some tx \<Rightarrow>
          (let full_text = py_strip tx
           in if length full_text < 20 then None
              else (let pv = amazon_price e
                    in Some \<lparr> title = amazon_title e full_text, price = fst pv,
                              price_value = snd pv \<rparr>)))"

definition amazon_product_selectors :: "string list" where
  "amazon_product_selectors =
     [''[data-component-type='s-search-result']'', ''.s-result-item'', ''[data-asin]'',
      ''.s-card-container'', ''.s-widget-container'']"

definition amazon_valid :: "string \<Rightarrow> element \<Rightarrow> bool" where
  \<comment> \<open>the test on one element of a selector; an element whose text raises is passed over\<close>
  "amazon_valid item_name el =
     (case e_text el of
        None \<Rightarrow> False
      | Some tx \<Rightarrow>
          30 < length (py_strip tx) \<and>
          list_ex (\<lambda>k. py_in k (py_lower (py_strip tx))) [''aed'', ''price'', py_lower item_name])"

fun amazon_strategy :: "page \<Rightarrow> string \<Rightarrow> string list \<Rightarrow> element list" where
  \<comment> \<open>the loop over \<open>product_selectors\<close>: the valid elements of the first selector
      that has any\<close>
  "amazon_strategy pg item_name [] = []"
| "amazon_strategy pg item_name (sel # sels) =
     (case find_css pg sel of
        None \<Rightarrow> amazon_strategy pg item_name sels
      | Some els \<Rightarrow>
          (let valid_elements = filter (amazon_valid item_name) els
           in if els \<noteq> [] \<and> valid_elements \<noteq> [] then valid_elements
              else amazon_strategy pg item_name sels))"

fun amazon_div_scan :: "string \<Rightarrow> element list \<Rightarrow> element list \<Rightarrow> element list" where
  \<comment> \<open>the fallback loop over all \<open>div\<close>s, left at ten\<close>
  "amazon_div_scan item_name [] acc = acc"
| "amazon_div_scan item_name (d # ds) acc =
     (case e_text d of
        None \<Rightarrow> amazon_div_scan item_name ds acc
      | Some tx \<Rightarrow>
          (let text = py_strip tx
           in if 100 < length text \<and> length text < 1500 \<and>
                 any_keyword [''aed'', ''delivery'', ''prime'', ''add to cart'', item_name] text \<and>
                 list_ex is_digit text
              then (if 10 \<le> length (acc @ [d]) then acc @ [d]
                    else amazon_div_scan item_name ds (acc @ [d]))
              else amazon_div_scan item_name ds acc))"

definition amazon_potential_products :: "page \<Rightarrow> string \<Rightarrow> element list option" where
  "amazon_potential_products pg item_name =
     (let pp = amazon_strategy pg item_name amazon_product_selectors
      in if pp = [] then (case find_divs pg of
                            None \<Rightarrow> None
                          | Some all_divs \<Rightarrow> Some (amazon_div_scan item_name all_divs []))
         else Some pp)"

definition amazon_search_item :: "page \<Rightarrow> SearchItem \<Rightarrow> ProductInfo list" where
  \<comment> \<open>\<open>SimpleAmazonScraper.search_item\<close>\<close>
  "amazon_search_item pg search_item =
     (if \<not> loads pg then []
      else if py_in ''robot'' (py_lower (page_title pg)) \<or>
              py_in ''captcha'' (py_lower (page_title pg)) then []
      else (case amazon_potential_products pg (name search_item) of
              None \<Rightarrow> []
            | Some potential_products \<Rightarrow>
                filter_products (max_price search_item)
                  (map (\<lambda>el. extract_amazon_product_info el (name search_item))
                       (take 10 potential_products))))"

section \<open>Namshi: the record builder and the search\<close>

text \<open>
  Of \<open>extract_namshi_product_info\<close> the brand, the title, the price with its discount
  text and the numeric price are modelled. \<open>None\<close> from a price step is a \<open>ValueError\<close>
  of \<open>float\<close> outside every inner \<open>try\<close>, which the outer handler turns into the
  return of \<open>None\<close>.
\<close>

definition namshi_brand_selectors :: "string list" where
  "namshi_brand_selectors =
     [''.ProductBox_brand__oDc9f'', ''[class*='ProductBox_brand']'', ''[class*='brand']'']"

fun namshi_brand_cascade :: "element \<Rightarrow> string list \<Rightarrow> string option \<Rightarrow> string option" where
  "namshi_brand_cascade e [] b = b"
| "namshi_brand_cascade e (sel # sels) b =
     (case e_find e sel of
        None \<Rightarrow> namshi_brand_cascade e sels b
      | Some be \<Rightarrow>
          (case n_text be of
             None \<Rightarrow> namshi_brand_cascade e sels b
           | Some tx \<Rightarrow>
               (let b' = Some (py_strip tx)
                in if longer_than 1 b' then b' else namshi_brand_cascade e sels b')))"

definition namshi_title_selectors :: "string list" where
  "namshi_title_selectors =
     [''.ProductBox_productTitle__6tQ3b'', ''[class*='ProductBox_productTitle']'',
      ''[class*='productTitle']'', ''[title]'', ''h2'', ''h3'', ''h4'']"

fun namshi_title_cascade :: "element \<Rightarrow> string list \<Rightarrow> string option \<Rightarrow> string option" where
  "namshi_title_cascade e [] t = t"
| "namshi_title_cascade e (sel # sels) t =
     (case e_find e sel of
        None \<Rightarrow> namshi_title_cascade e sels t
      | Some te \<Rightarrow>
          (case n_text te of
             None \<Rightarrow> namshi_title_cascade e sels t
           | Some tx \<Rightarrow>
               (let t' = (if py_strip tx \<noteq> [] then Some (py_strip tx) else n_attr te ''title'')
                in if longer_than 5 t' then t' else namshi_title_cascade e sels t')))"

definition namshi_title_line :: "string \<Rightarrow> bool" where
  "namshi_title_line line =
     (5 < length line \<and> length line < 100 \<and> \<not> only_digits line \<and>
      \<not> py_in ''aed'' (py_lower line) \<and> \<not> py_in ''%'' line \<and>
      \<not> py_in ''delivery'' (py_lower line) \<and> \<not> py_in ''free'' (py_lower line))"

definition namshi_title :: "element \<Rightarrow> string \<Rightarrow> string option \<Rightarrow> string" where
  "namshi_title e full_text brand =
     (let t = namshi_title_cascade e namshi_title_selectors None;
          t = (if \<not> str_truthy t
               then (case find namshi_title_line (text_lines full_text) of
                       None \<Rightarrow> t | Some line \<Rightarrow> Some line)
               else t);
          t = (case (brand, t) of
                 (Some b, Some s) \<Rightarrow>
                   if b \<noteq> [] \<and> s \<noteq> [] \<and> \<not> py_in (py_lower b) (py_lower s) then b @ '' '' @ s
                   else if s = [] \<and> b \<noteq> [] then b
                   else if s = [] then ''Unknown Product''
                   else s
               | (Some b, None) \<Rightarrow> if b \<noteq> [] then b else ''Unknown Product''
               | (None, Some s) \<Rightarrow> if s = [] then ''Unknown Product'' else s
               | (None, None) \<Rightarrow> ''Unknown Product'')
      in clean_title 100 t)"

definition namshi_price_selectors :: "string list" where
  "namshi_price_selectors =
     [''.ProductPrice_value__hnFSS'',
      ''.ProductPrice_sellingPrice__y8kib .ProductPrice_value__hnFSS'',
      ''[class*='ProductPrice_value']'', ''[class*='sellingPrice'] [class*='value']'',
      ''[class*='price'] [class*='value']'']"

fun namshi_price_cascade ::
  "element \<Rightarrow> string list \<Rightarrow> string \<times> pyfloat option \<Rightarrow> string \<times> pyfloat option" where
  "namshi_price_cascade e [] pv = pv"
| "namshi_price_cascade e (sel # sels) pv =
     (case e_find e sel of
        None \<Rightarrow> namshi_price_cascade e sels pv
      | Some pe \<Rightarrow>
          (case n_text pe of
             None \<Rightarrow> namshi_price_cascade e sels pv
           | Some tx \<Rightarrow>
               (let price_text = py_strip tx
                in if price_text \<noteq> [] \<and> re_match rx_decimal price_text \<noteq> None
                   then (case py_float price_text of
                           None \<Rightarrow> namshi_price_cascade e sels (''AED '' @ price_text, snd pv)
                         | Some v \<Rightarrow> (''AED '' @ price_text, Some v))
                   else namshi_price_cascade e sels pv)))"

definition namshi_old_price_selectors :: "string list" where
  "namshi_old_price_selectors =
     [''.ProductPrice_preReductionPrice__S72wT'', ''[class*='ProductPrice_oldPrice']'',
      ''[class*='preReductionPrice']'', ''[class*='oldPrice']'']"

fun namshi_old_price_cascade :: "element \<Rightarrow> string list \<Rightarrow> string option" where
  "namshi_old_price_cascade e [] = None"
| "namshi_old_price_cascade e (sel # sels) =
     (case e_find e sel of
        None \<Rightarrow> namshi_old_price_cascade e sels
      | Some pe \<Rightarrow>
          (case n_text pe of
             None \<Rightarrow> namshi_old_price_cascade e sels
           | Some tx \<Rightarrow>
               (if py_strip tx \<noteq> [] \<and> re_match rx_decimal (py_strip tx) \<noteq> None
                then Some (''AED '' @ py_strip tx)
                else namshi_old_price_cascade e sels)))"

definition namshi_discount_selectors :: "string list" where
  "namshi_discount_selectors =
     [''.DiscountTag_value__D52x5'', ''[class*='DiscountTag_value']'', ''[class*='discount']'']"

fun namshi_discount_cascade :: "element \<Rightarrow> string list \<Rightarrow> string option" where
  "namshi_discount_cascade e [] = None"
| "namshi_discount_cascade e (sel # sels) =
     (case e_find e sel of
        None \<Rightarrow> namshi_discount_cascade e sels
      | Some de \<Rightarrow>
          (case n_text de of
             None \<Rightarrow> namshi_discount_cascade e sels
           | Some tx \<Rightarrow>
               (if py_strip tx \<noteq> [] \<and> py_in ''%'' (py_strip tx) then Some (py_strip tx)
                else namshi_discount_cascade e sels)))"

definition rx_short_number :: rx where
  \<comment> \<open>\<open>\d{1,4}(?:\.\d{2})?\<close>\<close>
  "rx_short_number = Cat (Rep 1 (Some 4) Digit) rx_cents"

definition namshi_price_patterns :: "rx list" where
  "namshi_price_patterns =
     [Cat (Group rx_short_number) (Cat rx_spaces rx_currency),
      Cat rx_currency (Cat rx_spaces (Group rx_short_number)),
      Cat WordB (Cat (Group (Rep 1 (Some 4) Digit))
                     (Cat WordB (Ahead (Cat rx_spaces rx_currency))))]"

fun namshi_pattern_price ::
  "string \<Rightarrow> rx list \<Rightarrow> string \<times> pyfloat option \<Rightarrow> (string \<times> pyfloat option) option" where
  \<comment> \<open>the loop over \<open>price_patterns\<close>: a match is taken when its number is above 10\<close>
  "namshi_pattern_price full_text [] pv = Some pv"
| "namshi_pattern_price full_text (r # rs) pv =
     (case re_search r full_text of
        None \<Rightarrow> namshi_pattern_price full_text rs pv
      | Some m \<Rightarrow>
          (let price_num = group1 m
           in if py_isdigit (py_remove (CHR ''.'') price_num)
              then (case py_float price_num of
                      None \<Rightarrow> None
                    | Some v \<Rightarrow>
                        if fgt v (Fin 10) then Some (''AED '' @ price_num, Some v)
                        else namshi_pattern_price full_text rs pv)
              else namshi_pattern_price full_text rs pv))"

fun namshi_last_resort ::
  "string list \<Rightarrow> string \<times> pyfloat option \<Rightarrow> (string \<times> pyfloat option) option" where
  \<comment> \<open>the loop over the lines: the first number of two to four digits in 50..5000\<close>
  "namshi_last_resort [] pv = Some pv"
| "namshi_last_resort (line # ls) pv =
     (case find (\<lambda>num. 50 \<le> py_int num \<and> py_int num \<le> 5000)
             (re_findall (Cat WordB (Cat (Group (Rep 2 (Some 4) Digit)) WordB)) line) of
        None \<Rightarrow> namshi_last_resort ls pv
      | Some num \<Rightarrow>
          (case py_float num of
             None \<Rightarrow> None
           | Some v \<Rightarrow> Some (''AED '' @ num, Some v)))"

definition namshi_price :: "element \<Rightarrow> string \<Rightarrow> (string \<times> pyfloat option) option" where
  "namshi_price e full_text =
     (let pv = namshi_price_cascade e namshi_price_selectors (price_not_available, None)
      in if fst pv = price_not_available
         then (case namshi_pattern_price full_text namshi_price_patterns pv of
                 None \<Rightarrow> None
               | Some qv \<Rightarrow>
                   if fst qv = price_not_available
                   then namshi_last_resort (split_on (CHR 0x0A) full_text) qv
                   else Some qv)
         else Some pv)"

definition namshi_price_text :: "string \<Rightarrow> string option \<Rightarrow> string option \<Rightarrow> string" where
  \<comment> \<open>the final price string with the old price and the discount\<close>
  "namshi_price_text p old_price discount =
     (case (old_price, discount) of
        (Some old, Some d) \<Rightarrow> p @ '' (was '' @ old @ '', '' @ d @ '' off)''
      | (Some old, None) \<Rightarrow> p @ '' (was '' @ old @ '')''
      | (None, Some d) \<Rightarrow> p @ '' ('' @ d @ '' off)''
      | (None, None) \<Rightarrow> p)"

definition extract_namshi_product_info :: "element \<Rightarrow> string \<Rightarrow> ProductInfo option" where
  "extract_namshi_product_info e search_term =
     (case e_text e of
        None \<Rightarrow> None
      | Some tx \<Rightarrow>
          (let full_text = py_strip tx
           in if length full_text < 10 then None
              else (let brand = namshi_brand_cascade e namshi_brand_selectors None;
                        t = namshi_title e full_text brand
                    in case namshi_price e full_text of
                         None \<Rightarrow> None
                       | Some pv \<Rightarrow>
                           Some \<lparr> title = t,
                                  price = namshi_price_text (fst pv)
                                            (namshi_old_price_cascade e namshi_old_price_selectors)
                                            (namshi_discount_cascade e namshi_discount_selectors),
                                  price_value = snd pv \<rparr>)))"

definition namshi_product_selectors :: "string list" where
  "namshi_product_selectors =
     [''.ProductBox_detailsContainer__LX4rf'', ''[class*='ProductBox_detailsContainer']'',
      ''[class*='ProductBox']'', ''[data-testid*='product']'', ''.product-card'',
      ''.product-item'']"

fun namshi_strategy :: "page \<Rightarrow> string list \<Rightarrow> element list" where
  \<comment> \<open>the loop over \<open>product_selectors\<close>: all elements of the first selector that has any\<close>
  "namshi_strategy pg [] = []"
| "namshi_strategy pg (sel # sels) =
     (case find_css pg sel of
        None \<Rightarrow> namshi_strategy pg sels
      | Some els \<Rightarrow> if els \<noteq> [] then els else namshi_strategy pg sels)"

fun namshi_div_scan :: "string \<Rightarrow> element list \<Rightarrow> element list \<Rightarrow> element list" where
  \<comment> \<open>the fallback loop over all \<open>div\<close>s, left at ten\<close>
  "namshi_div_scan item_name [] acc = acc"
| "namshi_div_scan item_name (d # ds) acc =
     (case e_text d of
        None \<Rightarrow> namshi_div_scan item_name ds acc
      | Some tx \<Rightarrow>
          (let text = py_strip tx
           in if 50 < length text \<and> length text < 800 \<and>
                 any_keyword [''aed'', ''delivery'', ''free'', ''discount'', item_name] text \<and>
                 list_ex is_digit text
              then (if 10 \<le> length (acc @ [d]) then acc @ [d]
                    else namshi_div_scan item_name ds (acc @ [d]))
              else namshi_div_scan item_name ds acc))"

definition namshi_potential_products :: "page \<Rightarrow> string \<Rightarrow> element list option" where
  "namshi_potential_products pg item_name =
     (let pp = namshi_strategy pg namshi_product_selectors
      in if pp = [] then (case find_divs pg of
                            None \<Rightarrow> None
                          | Some all_divs \<Rightarrow> Some (namshi_div_scan item_name all_divs []))
         else Some pp)"

definition namshi_search_item :: "page \<Rightarrow> SearchItem \<Rightarrow> ProductInfo list" where
  \<comment> \<open>\<open>SimpleNamshiScraper.search_item\<close>\<close>
  "namshi_search_item pg search_item =
     (if \<not> loads pg then []
      else if py_in ''can't be reached'' (py_lower (page_title pg)) \<or>
              py_in ''error'' (py_lower (page_title pg)) then []
      else (case namshi_potential_products pg (name search_item) of
              None \<Rightarrow> []
            | Some potential_products \<Rightarrow>
                filter_products (max_price search_item)
                  (map (\<lambda>el. extract_namshi_product_info el (name search_item))
                       (take 10 potential_products))))"

section \<open>The input file\<close>

datatype file_read = FileNotFound | ReadError | FileLines "string list"

definition parse_line :: "string \<Rightarrow> SearchItem list" where
  \<comment> \<open>the body of the loop over the lines: the items one line appends\<close>
  "parse_line raw =
     (let line = py_strip raw
      in if line = [] \<or> startswith line ''#'' then []
         else if py_in '','' line
         then (case map py_strip (split_on (CHR '','') line) of
                 item_name # p # _ \<Rightarrow>
                   (case py_float p of
                      Some m \<Rightarrow> [\<lparr> name = item_name, max_price = Some m \<rparr>]
                    | None \<Rightarrow> [\<lparr> name = item_name, max_price = None \<rparr>])
               | _ \<Rightarrow> [\<lparr> name = line, max_price = None \<rparr>])
         else [\<lparr> name = line, max_price = None \<rparr>])"

definition parse_items_from_file :: "file_read \<Rightarrow> SearchItem list" where
  \<comment> \<open>the same function in the three scraper modules; the argument is what opening
      and reading the file gives\<close>
  "parse_items_from_file f =
     (case f of
        FileNotFound \<Rightarrow> []
      | ReadError \<Rightarrow> []
      | FileLines lines \<Rightarrow> concat (map parse_line lines))"

section \<open>The aggregator\<close>

text \<open>
  \<open>search_all_sites\<close> drives three scraper objects. What it sees of one is what
  \<open>setup_driver\<close> returns and what \<open>search_item\<close> returns, or that the call raised an
  \<open>Exception\<close>. The first argument says whether the three modules could be imported.
\<close>

datatype 'a outcome = Returned 'a | Raised

record scraper =
  setup_driver :: "bool outcome"
  search_item :: "SearchItem \<Rightarrow> ProductInfo list outcome"

record site_data =
  site :: string
  site_products :: "ProductInfo list"
  site_max_price :: "pyfloat option"

definition search_site :: "string \<Rightarrow> scraper \<Rightarrow> string \<Rightarrow> pyfloat option \<Rightarrow> site_data" where
  \<comment> \<open>one \<open>try\<close> block of \<open>search_all_sites\<close>\<close>
  "search_site site_name sc search_term mp =
     (case setup_driver sc of
        Raised \<Rightarrow> \<lparr> site = site_name, site_products = [], site_max_price = mp \<rparr>
      | Returned ok \<Rightarrow>
          if ok
          then (case search_item sc \<lparr> name = search_term, max_price = mp \<rparr> of
                  Raised \<Rightarrow> \<lparr> site = site_name, site_products = [], site_max_price = mp \<rparr>
                | Returned results \<Rightarrow>
                    \<lparr> site = site_name, site_products = results, site_max_price = mp \<rparr>)
          else \<lparr> site = site_name, site_products = [], site_max_price = mp \<rparr>)"

definition search_all_sites ::
  "bool \<Rightarrow> scraper \<Rightarrow> scraper \<Rightarrow> scraper \<Rightarrow> string \<Rightarrow> pyfloat option
     \<Rightarrow> (string \<times> site_data) list" where
  \<comment> \<open>the dictionary \<open>all_results\<close> in the order of its keys; \<open>[]\<close> is the empty
      dictionary of the \<open>ImportError\<close> branch\<close>
  "search_all_sites imported noon_scraper namshi_scraper amazon_scraper search_term mp =
     (if \<not> imported then []
      else [(''noon'', search_site ''Noon.com'' noon_scraper search_term mp),
            (''namshi'', search_site ''Namshi.com'' namshi_scraper search_term mp),
            (''amazon'', search_site ''Amazon.ae'' amazon_scraper search_term mp)])"

definition browser_scraper ::
  "(page \<Rightarrow> SearchItem \<Rightarrow> ProductInfo list) \<Rightarrow> page option \<Rightarrow> scraper" where
  \<comment> \<open>a scraper object as the classes define it: \<open>setup_driver\<close> catches every exception
      and returns \<open>False\<close> (no browser: \<open>None\<close>); \<open>search_item\<close> catches every exception
      and returns \<open>[]\<close>, also that of a driver that is not there\<close>
  "browser_scraper search browser =
     \<lparr> setup_driver = Returned (browser \<noteq> None),
       search_item = (\<lambda>item. case browser of None \<Rightarrow> Returned []
                                 | Some pg \<Rightarrow> Returned (search pg item)) \<rparr>"

section \<open>Serialisation of the budget flag\<close>

definition within_budget :: "pyfloat option \<Rightarrow> pyfloat option \<Rightarrow> bool option" where
  \<comment> \<open>\<open>(product.price_value <= max_price) if (max_price and product.price_value) else None\<close>\<close>
  "within_budget mp pv = (if truthy mp \<and> truthy pv then Some (price_le pv mp) else None)"

record json_product =
  j_title :: string
  j_price :: string
  j_price_value :: "pyfloat option"
  j_within_budget :: "bool option"

definition serialize_product :: "pyfloat option \<Rightarrow> ProductInfo \<Rightarrow> json_product" where
  \<comment> \<open>one entry of the \<open>'products'\<close> list comprehension\<close>
  "serialize_product mp p =
     \<lparr> j_title = title p, j_price = price p, j_price_value = price_value p,
       j_within_budget = within_budget mp (price_value p) \<rparr>"

record result_data =
  products :: "ProductInfo list"
  data_max_price :: "pyfloat option"

record json_data =
  max_price_filter :: "pyfloat option"
  j_products :: "json_product list"

definition save_results :: "(string \<times> result_data) list \<Rightarrow> (string \<times> json_data) list" where
  \<comment> \<open>\<open>serializable_results\<close> of \<open>save_results\<close>, the dictionary that is dumped\<close>
  "save_results results =
     map (\<lambda>(item, d).
            (item, \<lparr> max_price_filter = data_max_price d,
                     j_products = map (serialize_product (data_max_price d)) (products d) \<rparr>))
         results"

record json_site =
  site_name :: string
  site_max_price_filter :: "pyfloat option"
  product_count :: nat
  site_json_products :: "json_product list"

definition save_unified_results :: "(string \<times> site_data) list \<Rightarrow> (string \<times> json_site) list" where
  \<comment> \<open>\<open>serializable_results['sites']\<close> of \<open>save_unified_results\<close>\<close>
  "save_unified_results results =
     map (\<lambda>(site_key, d).
            (site_key, \<lparr> site_name = site d, site_max_price_filter = site_max_price d,
                         product_count = length (site_products d),
                         site_json_products =
                           map (serialize_product (site_max_price d)) (site_products d) \<rparr>))
         results"

section \<open>The per-source session\<close>

fun dict_set :: "string \<Rightarrow> 'a \<Rightarrow> (string \<times> 'a) list \<Rightarrow> (string \<times> 'a) list" where
  \<comment> \<open>\<open>d[k] = v\<close> on a dictionary kept in the order of its keys\<close>
  "dict_set k v [] = [(k, v)]"
| "dict_set k v ((k', v') # d) = (if k = k' then (k, v) # d else (k', v') # dict_set k v d)"

fun run_searches ::
  "(page \<Rightarrow> SearchItem \<Rightarrow> ProductInfo list) \<Rightarrow> (page \<times> SearchItem) list
     \<Rightarrow> (string \<times> result_data) list \<Rightarrow> (string \<times> result_data) list" where
  \<comment> \<open>the loop of \<open>main\<close> over \<open>items_to_search\<close>, each item with the page the browser
      shows for it; the last argument is \<open>all_results\<close>\<close>
  "run_searches search [] all_results = all_results"
| "run_searches search ((pg, item) # rest) all_results =
     run_searches search rest
       (dict_set (name item)
          \<lparr> products = search pg item, data_max_price = max_price item \<rparr> all_results)"

section \<open>Example pages\<close>

definition no_attr :: "string \<Rightarrow> string option" where
  "no_attr a = None"

definition priced_element :: "string \<Rightarrow> string \<Rightarrow> string \<Rightarrow> element" where
  \<comment> \<open>an element with this text in which one selector finds an element with that text\<close>
  "priced_element txt sel found_text =
     \<lparr> e_text = Some txt,
       e_find = (\<lambda>s. if s = sel then Some \<lparr> n_text = Some found_text, n_attr = no_attr \<rparr>
                     else None),
       e_find_all = (\<lambda>s. Some []) \<rparr>"

definition noon_lamp :: "string \<Rightarrow> element" where
  \<comment> \<open>a product box of Noon whose price element shows the given text\<close>
  "noon_lamp price_text =
     priced_element ''Desk Lamp with adjustable arm\<newline>AED'' ''.Price_amount__2sXa7'' price_text"

definition noon_page :: "element list \<Rightarrow> page" where
  \<comment> \<open>a result page of Noon with these product boxes\<close>
  "noon_page els =
     \<lparr> loads = True, page_title = ''noon'', page_source_len = 5000,
       find_css = (\<lambda>s. if s = ''[data-qa='plp-product-box']'' then Some els else Some []),
       find_divs = Some [] \<rparr>"

definition bare_element :: "string \<Rightarrow> element" where
  \<comment> \<open>an element with this text in which no selector finds anything\<close>
  "bare_element txt =
     \<lparr> e_text = Some txt, e_find = (\<lambda>s. None), e_find_all = (\<lambda>s. Some []) \<rparr>"

section \<open>Properties\<close>

subsection \<open>The price ceiling\<close>

lemma filter_products_sound:
  "r \<in> set (filter_products mp rs) \<Longrightarrow>
     Some r \<in> set rs \<and> (truthy mp \<and> truthy (price_value r) \<longrightarrow> price_le (price_value r) mp)"
  by (induction mp rs rule: filter_products.induct) (auto split: if_splits)

lemma filter_products_length: "length (filter_products mp rs) \<le> length rs"
  by (induction mp rs rule: filter_products.induct) auto

lemma search_items_filtered:
  assumes "r \<in> set (noon_search_item pg item) \<union> set (amazon_search_item pg item)
               \<union> set (namshi_search_item pg item)"
  shows "truthy (max_price item) \<and> truthy (price_value r)
           \<longrightarrow> price_le (price_value r) (max_price item)"
  using assms
  by (auto simp: noon_search_item_def amazon_search_item_def namshi_search_item_def
           split: if_splits option.splits dest: filter_products_sound)

text \<open>
  C1, as stated, fails: a ceiling of zero is present and is not applied, since the loop
  tests the ceiling and the price for truth. With the ceiling 0 the search returns the
  records priced 100 and 899.
\<close>

theorem zero_ceiling_not_applied:
  "max_price \<lparr> name = ''lamp'', max_price = Some (Fin 0) \<rparr> = Some (Fin 0) \<and>
   map price_value
     (noon_search_item (noon_page [noon_lamp ''100'', noon_lamp ''899''])
        \<lparr> name = ''lamp'', max_price = Some (Fin 0) \<rparr>)
     = [Some (Fin 100), Some (Fin 899)] \<and>
   \<not> fle (Fin 100) (Fin 0)"
  by code_simp

text \<open>
  C1, amended. For every search item whose ceiling is a positive number \<open>m\<close> and every
  record returned by \<open>search_item\<close> of any of the three scrapers: if the record has a
  numeric price, the price is at most \<open>m\<close>. A record with a known price above the
  ceiling is not in the returned list.
\<close>

theorem search_item_respects_positive_ceiling:
  assumes "max_price item = Some (Fin m)" and "0 < m"
    and "r \<in> set (noon_search_item pg item) \<union> set (amazon_search_item pg item)
               \<union> set (namshi_search_item pg item)"
    and "price_value r = Some v"
  shows "fle v (Fin m)"
proof (cases "float_truthy v")
  case True
  with search_items_filtered[OF assms(3)] assms(1,2,4) show ?thesis
    by (simp add: price_le_def)
next
  case False
  then have "v = Fin 0" by (cases v) auto
  with assms(2) show ?thesis by simp
qed

theorem search_item_respects_positive_ceiling_witness:
  "noon_search_item (noon_page [noon_lamp ''100'', noon_lamp ''899''])
     \<lparr> name = ''lamp'', max_price = Some (Fin 500) \<rparr>
   = [\<lparr> title = ''Desk Lamp with adjustable arm'', price = ''AED 100'',
        price_value = Some (Fin 100) \<rparr>] \<and>
   fle (Fin 100) (Fin 500)"
proof -
  have ev: "noon_search_item (noon_page [noon_lamp ''100'', noon_lamp ''899''])
              \<lparr> name = ''lamp'', max_price = Some (Fin 500) \<rparr>
            = [\<lparr> title = ''Desk Lamp with adjustable arm'', price = ''AED 100'',
                 price_value = Some (Fin 100) \<rparr>]"
    by code_simp
  have "fle (Fin 100) (Fin 500)"
    using search_item_respects_positive_ceiling
      [of "\<lparr> name = ''lamp'', max_price = Some (Fin 500) \<rparr>" 500
          "\<lparr> title = ''Desk Lamp with adjustable arm'', price = ''AED 100'',
             price_value = Some (Fin 100) \<rparr>"
          "noon_page [noon_lamp ''100'', noon_lamp ''899'']" "Fin 100"] ev
    by simp
  with ev show ?thesis by simp
qed

subsection \<open>The serialised budget flag\<close>

text \<open>
  C2. In every record written by \<open>save_results\<close> and by \<open>save_unified_results\<close>, the flag
  \<open>within_budget\<close> is set only when the record has a numeric price and the request has a
  ceiling; when it is set it is the comparison \<open>price_value <= max_price\<close>; when either
  is absent it is unset.
\<close>

theorem within_budget_only_when_both_present:
  "(\<forall>(item, d) \<in> set (save_results results). \<forall>j \<in> set (j_products d).
     (j_within_budget j \<noteq> None \<longrightarrow> max_price_filter d \<noteq> None \<and> j_price_value j \<noteq> None) \<and>
     (\<forall>b. j_within_budget j = Some b \<longrightarrow>
        (\<exists>v m. j_price_value j = Some v \<and> max_price_filter d = Some m \<and> b = fle v m)) \<and>
     (max_price_filter d = None \<or> j_price_value j = None \<longrightarrow> j_within_budget j = None)) \<and>
   (\<forall>(site_key, d) \<in> set (save_unified_results sites). \<forall>j \<in> set (site_json_products d).
     (j_within_budget j \<noteq> None \<longrightarrow> site_max_price_filter d \<noteq> None \<and> j_price_value j \<noteq> None) \<and>
     (\<forall>b. j_within_budget j = Some b \<longrightarrow>
        (\<exists>v m. j_price_value j = Some v \<and> site_max_price_filter d = Some m \<and> b = fle v m)) \<and>
     (site_max_price_filter d = None \<or> j_price_value j = None \<longrightarrow> j_within_budget j = None))"
  by (auto simp: save_results_def save_unified_results_def serialize_product_def
                 within_budget_def price_le_def
           split: option.splits if_splits)

theorem within_budget_only_when_both_present_witness:
  "map (\<lambda>(item, d). (max_price_filter d, map j_price_value (j_products d),
                          map j_within_budget (j_products d)))
     (save_results
        [(''lamp'', \<lparr> products = [\<lparr> title = ''Desk Lamp'', price = ''AED 100'',
                                        price_value = Some (Fin 100) \<rparr>],
                      data_max_price = Some (Fin 150) \<rparr>)])
   = [(Some (Fin 150), [Some (Fin 100)], [Some True])] \<and>
   map (\<lambda>(site_key, d). (site_max_price_filter d, map j_price_value (site_json_products d),
                          map j_within_budget (site_json_products d)))
     (save_unified_results
        [(''noon'', \<lparr> site = ''Noon.com'',
                      site_products = [\<lparr> title = ''Desk Lamp'', price = ''AED 100'',
                                             price_value = Some (Fin 100) \<rparr>],
                      site_max_price = None \<rparr>)])
   = [(None, [Some (Fin 100)], [None])]"
  using within_budget_only_when_both_present
    [of "[(''lamp'', \<lparr> products = [\<lparr> title = ''Desk Lamp'', price = ''AED 100'',
                                        price_value = Some (Fin 100) \<rparr>],
                      data_max_price = Some (Fin 150) \<rparr>)]"
        "[(''noon'', \<lparr> site = ''Noon.com'',
                      site_products = [\<lparr> title = ''Desk Lamp'', price = ''AED 100'',
                                             price_value = Some (Fin 100) \<rparr>],
                      site_max_price = None \<rparr>)]"]
  by (simp add: save_results_def save_unified_results_def serialize_product_def
                within_budget_def price_le_def)

subsection \<open>The saved budget flag of a session\<close>

lemma dict_set_entries:
  "(k', d') \<in> set (dict_set k v ds) \<Longrightarrow> (k', d') = (k, v) \<or> (k', d') \<in> set ds"
  by (induction ds) (auto split: if_splits)

lemma run_searches_invariant:
  assumes "\<forall>(k, d) \<in> set acc. P d"
    and "\<And>pg item. P \<lparr> products = search pg item, data_max_price = max_price item \<rparr>"
  shows "\<forall>(k, d) \<in> set (run_searches search runs acc). P d"
  using assms(1)
proof (induction runs arbitrary: acc)
  case Nil
  then show ?case by simp
next
  case (Cons run runs)
  obtain pg item where run: "run = (pg, item)" by (cases run)
  have "\<forall>(k, d) \<in> set (dict_set (name item)
           \<lparr> products = search pg item, data_max_price = max_price item \<rparr> acc). P d"
    using Cons.prems assms(2) by (auto dest!: dict_set_entries)
  from Cons.IH[OF this] show ?case by (simp add: run)
qed

lemma flag_not_false:
  "truthy mp \<and> truthy pv \<longrightarrow> price_le pv mp \<Longrightarrow> within_budget mp pv \<noteq> Some False"
  by (auto simp: within_budget_def)

lemma saved_session_flags:
  assumes "\<forall>pg item. \<forall>r \<in> set (search pg item).
             truthy (max_price item) \<and> truthy (price_value r)
               \<longrightarrow> price_le (price_value r) (max_price item)"
  shows "\<forall>(k, d) \<in> set (save_results (run_searches search runs [])).
           \<forall>j \<in> set (j_products d). j_within_budget j \<noteq> Some False"
proof -
  have "\<forall>(k, d) \<in> set (run_searches search runs []).
          \<forall>r \<in> set (products d). within_budget (data_max_price d) (price_value r) \<noteq> Some False"
  proof (rule run_searches_invariant)
    show "\<forall>(k, d) \<in> set []. \<forall>r \<in> set (products d).
            within_budget (data_max_price d) (price_value r) \<noteq> Some False"
      by simp
  next
    fix pg item
    show "\<forall>r \<in> set (products \<lparr> products = search pg item, data_max_price = max_price item \<rparr>).
            within_budget (data_max_price \<lparr> products = search pg item, data_max_price = max_price item \<rparr>)
              (price_value r) \<noteq> Some False"
      using assms by (simp add: flag_not_false)
  qed
  then show ?thesis
    by (fastforce simp: save_results_def serialize_product_def)
qed

lemma browser_site_flags:
  assumes "\<forall>pg item. \<forall>r \<in> set (search pg item).
             truthy (max_price item) \<and> truthy (price_value r)
               \<longrightarrow> price_le (price_value r) (max_price item)"
    and "r \<in> set (site_products (search_site nm (browser_scraper search b) t mp))"
  shows "within_budget mp (price_value r) \<noteq> Some False"
proof (cases b)
  case None
  with assms(2) show ?thesis by (simp add: search_site_def browser_scraper_def)
next
  case (Some pg)
  with assms(2) have "r \<in> set (search pg \<lparr> name = t, max_price = mp \<rparr>)"
    by (simp add: search_site_def browser_scraper_def)
  with assms(1) have "truthy mp \<and> truthy (price_value r) \<longrightarrow> price_le (price_value r) mp"
    by fastforce
  then show ?thesis by (rule flag_not_false)
qed

text \<open>
  C10. A record kept by \<open>search_item\<close> under a ceiling is serialised under the same
  ceiling: \<open>main\<close> stores the products of a search with the ceiling of its item, and
  \<open>search_all_sites\<close> stores them with the ceiling it searched with. So in every saved
  output the flag \<open>within_budget\<close> is unset or true, never false.
\<close>

theorem saved_within_budget_never_false:
  "(\<forall>(k, d) \<in> set (save_results (run_searches noon_search_item runs1 [])).
      \<forall>j \<in> set (j_products d). j_within_budget j \<noteq> Some False) \<and>
   (\<forall>(k, d) \<in> set (save_results (run_searches amazon_search_item runs2 [])).
      \<forall>j \<in> set (j_products d). j_within_budget j \<noteq> Some False) \<and>
   (\<forall>(k, d) \<in> set (save_results (run_searches namshi_search_item runs3 [])).
      \<forall>j \<in> set (j_products d). j_within_budget j \<noteq> Some False) \<and>
   (\<forall>(k, d) \<in> set (save_unified_results
        (search_all_sites imported (browser_scraper noon_search_item b1)
           (browser_scraper namshi_search_item b2) (browser_scraper amazon_search_item b3)
           t mp)).
      \<forall>j \<in> set (site_json_products d). j_within_budget j \<noteq> Some False)"
proof -
  have noon: "\<forall>pg item. \<forall>r \<in> set (noon_search_item pg item).
             truthy (max_price item) \<and> truthy (price_value r)
               \<longrightarrow> price_le (price_value r) (max_price item)"
    using search_items_filtered by blast
  have amazon: "\<forall>pg item. \<forall>r \<in> set (amazon_search_item pg item).
             truthy (max_price item) \<and> truthy (price_value r)
               \<longrightarrow> price_le (price_value r) (max_price item)"
    using search_items_filtered by blast
  have namshi: "\<forall>pg item. \<forall>r \<in> set (namshi_search_item pg item).
             truthy (max_price item) \<and> truthy (price_value r)
               \<longrightarrow> price_le (price_value r) (max_price item)"
    using search_items_filtered by blast
  have unified: "\<forall>(k, d) \<in> set (save_unified_results
        (search_all_sites imported (browser_scraper noon_search_item b1)
           (browser_scraper namshi_search_item b2) (browser_scraper amazon_search_item b3)
           t mp)).
      \<forall>j \<in> set (site_json_products d). j_within_budget j \<noteq> Some False"
  proof (cases imported)
    case False
    then show ?thesis by (simp add: search_all_sites_def save_unified_results_def)
  next
    case True
    have mp: "site_max_price (search_site nm sc t mp) = mp" for nm sc
      by (simp add: search_site_def split: outcome.splits)
    show ?thesis
      using True browser_site_flags[OF noon] browser_site_flags[OF amazon]
        browser_site_flags[OF namshi]
      by (auto simp: search_all_sites_def save_unified_results_def serialize_product_def mp)
  qed
  from saved_session_flags[OF noon] saved_session_flags[OF amazon]
      saved_session_flags[OF namshi] unified
  show ?thesis by blast
qed

theorem saved_within_budget_never_false_witness:
  "map (\<lambda>(k, d). map j_within_budget (j_products d))
     (save_results
        (run_searches noon_search_item
           [(noon_page [noon_lamp ''100'', noon_lamp ''899''],
             \<lparr> name = ''lamp'', max_price = Some (Fin 500) \<rparr>)] []))
   = [[Some True]]"
proof -
  have ev: "map (\<lambda>(k, d). map j_within_budget (j_products d))
     (save_results
        (run_searches noon_search_item
           [(noon_page [noon_lamp ''100'', noon_lamp ''899''],
             \<lparr> name = ''lamp'', max_price = Some (Fin 500) \<rparr>)] []))
   = [[Some True]]"
    by code_simp
  show ?thesis
    using saved_within_budget_never_false
      [of "[(noon_page [noon_lamp ''100'', noon_lamp ''899''],
             \<lparr> name = ''lamp'', max_price = Some (Fin 500) \<rparr>)]" "[]" "[]" False]
      ev
    by simp
qed

subsection \<open>The candidate cap\<close>

lemma noon_div_scan_length:
  "length acc < 5 \<Longrightarrow> length (noon_div_scan i ds acc) \<le> 5"
  by (induction ds arbitrary: acc) (auto split: option.splits simp: Let_def)

lemma amazon_div_scan_length:
  "length acc < 10 \<Longrightarrow> length (amazon_div_scan i ds acc) \<le> 10"
  by (induction ds arbitrary: acc) (auto split: option.splits simp: Let_def)

lemma namshi_div_scan_length:
  "length acc < 10 \<Longrightarrow> length (namshi_div_scan i ds acc) \<le> 10"
  by (induction ds arbitrary: acc) (auto split: option.splits simp: Let_def)

lemma filter_map_take_length:
  "length (filter_products mp (map f (take n xs))) \<le> n"
  using filter_products_length[of mp "map f (take n xs)"] by simp

text \<open>
  C5, as stated, fails for the strategy tier: the elements of the first selector that
  has plausible ones are all kept. On a page of Noon with six plausible product boxes
  the located candidates are six, above the maximum of five.
\<close>

theorem strategy_tier_not_capped:
  "map_option length
     (noon_potential_products
        (noon_page [noon_lamp ''1'', noon_lamp ''2'', noon_lamp ''3'', noon_lamp ''4'',
                    noon_lamp ''5'', noon_lamp ''6''])
        ''lamp'') = Some 6 \<and> \<not> (6::nat) \<le> 5"
  by code_simp

text \<open>
  C5, amended. The generic scan stops at the maximum of its source (5 for Noon, 10 for
  Amazon and Namshi), and of the located candidates of either tier at most that many
  are built into records: \<open>search_item\<close> returns at most 5 records for Noon and at most
  10 for Amazon and Namshi.
\<close>

theorem candidates_capped_when_consumed:
  "length (noon_div_scan item_name divs []) \<le> 5 \<and>
   length (amazon_div_scan item_name divs []) \<le> 10 \<and>
   length (namshi_div_scan item_name divs []) \<le> 10 \<and>
   length (noon_search_item pg item) \<le> 5 \<and>
   length (amazon_search_item pg item) \<le> 10 \<and>
   length (namshi_search_item pg item) \<le> 10"
proof -
  have "length (noon_search_item pg item) \<le> 5"
    by (simp add: noon_search_item_def filter_map_take_length split: option.splits)
  moreover have "length (amazon_search_item pg item) \<le> 10"
    by (simp add: amazon_search_item_def filter_map_take_length split: option.splits)
  moreover have "length (namshi_search_item pg item) \<le> 10"
    by (simp add: namshi_search_item_def filter_map_take_length split: option.splits)
  ultimately show ?thesis
    using noon_div_scan_length[of "[]"] amazon_div_scan_length[of "[]"]
      namshi_div_scan_length[of "[]"] by simp
qed

subsection \<open>The aggregator\<close>

text \<open>
  C7. When the modules are imported, the result of \<open>search_all_sites\<close> has the three
  keys. A source whose driver setup fails, or whose setup or search raises, has an entry
  with an empty product list; a source whose search returns has an entry with all the
  products returned, whatever the other two sources did.
\<close>

theorem search_all_sites_isolates_failures:
  assumes "imported"
  shows "map fst (search_all_sites imported n m a t mp) = [''noon'', ''namshi'', ''amazon''] \<and>
    (setup_driver n \<noteq> Returned True \<or> search_item n \<lparr> name = t, max_price = mp \<rparr> = Raised
       \<longrightarrow> map_option site_products (map_of (search_all_sites imported n m a t mp) ''noon'')
             = Some []) \<and>
    (setup_driver m \<noteq> Returned True \<or> search_item m \<lparr> name = t, max_price = mp \<rparr> = Raised
       \<longrightarrow> map_option site_products (map_of (search_all_sites imported n m a t mp) ''namshi'')
             = Some []) \<and>
    (setup_driver a \<noteq> Returned True \<or> search_item a \<lparr> name = t, max_price = mp \<rparr> = Raised
       \<longrightarrow> map_option site_products (map_of (search_all_sites imported n m a t mp) ''amazon'')
             = Some []) \<and>
    (\<forall>rs. setup_driver n = Returned True \<and>
           search_item n \<lparr> name = t, max_price = mp \<rparr> = Returned rs
       \<longrightarrow> map_option site_products (map_of (search_all_sites imported n m a t mp) ''noon'')
             = Some rs) \<and>
    (\<forall>rs. setup_driver m = Returned True \<and>
           search_item m \<lparr> name = t, max_price = mp \<rparr> = Returned rs
       \<longrightarrow> map_option site_products (map_of (search_all_sites imported n m a t mp) ''namshi'')
             = Some rs) \<and>
    (\<forall>rs. setup_driver a = Returned True \<and>
           search_item a \<lparr> name = t, max_price = mp \<rparr> = Returned rs
       \<longrightarrow> map_option site_products (map_of (search_all_sites imported n m a t mp) ''amazon'')
             = Some rs)"
  using assms
  by (auto simp: search_all_sites_def search_site_def split: outcome.splits)

theorem search_all_sites_isolates_failures_witness:
  "map (\<lambda>(k, d). (k, site_products d))
     (search_all_sites True
        (browser_scraper noon_search_item None)
        \<lparr> setup_driver = Returned True, search_item = (\<lambda>item. Raised) \<rparr>
        \<lparr> setup_driver = Returned True,
          search_item = (\<lambda>item. Returned [\<lparr> title = ''Desk Lamp'', price = ''AED 100'',
                                            price_value = Some (Fin 100) \<rparr>]) \<rparr>
        ''lamp'' None)
   = [(''noon'', []), (''namshi'', []),
      (''amazon'', [\<lparr> title = ''Desk Lamp'', price = ''AED 100'',
                       price_value = Some (Fin 100) \<rparr>])]"
  using search_all_sites_isolates_failures
    [of True "browser_scraper noon_search_item None"
        "\<lparr> setup_driver = Returned True, search_item = (\<lambda>item. Raised) \<rparr>"
        "\<lparr> setup_driver = Returned True,
          search_item = (\<lambda>item. Returned [\<lparr> title = ''Desk Lamp'', price = ''AED 100'',
                                            price_value = Some (Fin 100) \<rparr>]) \<rparr>"
        "''lamp''" None]
  by (simp add: search_all_sites_def search_site_def browser_scraper_def)

subsection \<open>The price normaliser\<close>

lemma digit_not_space: "is_digit c \<Longrightarrow> \<not> is_space c"
  unfolding is_digit_def by (elim disjE | simp add: is_space_def)+

lemma digit_lower: "is_digit c \<Longrightarrow> lower_char c = c"
  by (auto simp: is_digit_def lower_char_def)

lemma digit_not_special:
  "is_digit c \<Longrightarrow> c \<noteq> CHR ''.'' \<and> c \<noteq> CHR ''_'' \<and> c \<noteq> CHR ''e'' \<and> c \<noteq> CHR ''E'' \<and>
     c \<noteq> CHR ''-'' \<and> c \<noteq> CHR ''+'' \<and> c \<noteq> CHR ''i'' \<and> c \<noteq> CHR ''n''"
  by (auto simp: is_digit_def)

lemma dot_facts:
  "\<not> is_space (CHR ''.'') \<and> lower_char (CHR ''.'') = CHR ''.'' \<and> \<not> is_digit (CHR ''.'')"
  by (simp add: is_digit_def is_space_def lower_char_def)

lemma float_space_is_space: "is_float_space c \<Longrightarrow> is_space c"
  by (auto simp: is_float_space_def is_space_def)

lemma float_strip_no_space: "list_all (\<lambda>c. \<not> is_float_space c) s \<Longrightarrow> float_strip s = s"
proof -
  assume a: "list_all (\<lambda>c. \<not> is_float_space c) s"
  have d: "dropWhile is_float_space t = t" if "list_all (\<lambda>c. \<not> is_float_space c) t" for t
    using that by (cases t) auto
  have "list_all (\<lambda>c. \<not> is_float_space c) (rev s)" using a by (simp add: list_all_iff)
  then show ?thesis using a by (simp add: float_strip_def d)
qed

lemma digitpart_rest_digits: "list_all is_digit s \<Longrightarrow> digitpart_rest s"
  by (induction s) auto

lemma digitpart_digits: "list_all is_digit s \<Longrightarrow> digitpart s = (s \<noteq> [])"
  by (cases s) (auto simp: digitpart_def digitpart_rest_digits)

lemma digitpart_rest_no_dot: "digitpart_rest s \<Longrightarrow> CHR ''.'' \<notin> set s"
  by (induction s rule: digitpart_rest.induct) (auto simp: dot_facts split: if_splits list.splits)

lemma digitpart_no_dot: "digitpart s \<Longrightarrow> CHR ''.'' \<notin> set s"
  by (cases s) (auto simp: digitpart_def dot_facts dest: digitpart_rest_no_dot)

lemma float_mantissa_nonneg: "float_mantissa s = Some q \<Longrightarrow> 0 \<le> q"
  by (auto simp: float_mantissa_def Let_def split: list.splits if_splits)

lemma plain_char:
  "is_digit c \<or> c = CHR ''.'' \<Longrightarrow>
     \<not> is_space c \<and> lower_char c = c \<and> c \<noteq> CHR ''e'' \<and> c \<noteq> CHR ''E'' \<and>
     c \<noteq> CHR ''-'' \<and> c \<noteq> CHR ''+'' \<and> c \<noteq> CHR ''i'' \<and> c \<noteq> CHR ''n''"
  using digit_not_space[of c] digit_lower[of c] digit_not_special[of c] dot_facts
  by auto

lemma py_float_plain:
  assumes "list_all (\<lambda>c. is_digit c \<or> c = CHR ''.'') s"
  shows "py_float s = map_option Fin (float_mantissa s)"
proof -
  have pc: "\<not> is_space c \<and> lower_char c = c \<and> c \<noteq> CHR ''e'' \<and> c \<noteq> CHR ''E'' \<and>
     c \<noteq> CHR ''-'' \<and> c \<noteq> CHR ''+'' \<and> c \<noteq> CHR ''i'' \<and> c \<noteq> CHR ''n''" if "c \<in> set s" for c
    using that assms plain_char[of c] by (simp add: list_all_iff)
  have ns: "list_all (\<lambda>c. \<not> is_float_space c) s"
    using pc float_space_is_space by (auto simp: list_all_iff)
  have st: "float_strip s = s" by (rule float_strip_no_space[OF ns])
  have "map lower_char s = s"
    by (rule map_idI) (simp add: pc)
  then have lw: "py_lower s = s" by (simp add: py_lower_def)
  have sign: "(case s of [] \<Rightarrow> [] | c # cs \<Rightarrow> if c = CHR ''-'' \<or> c = CHR ''+'' then cs else s) = s"
    using pc by (cases s) auto
  have neg: "(case s of [] \<Rightarrow> False | c # _ \<Rightarrow> c = CHR ''-'') = False"
    using pc by (cases s) auto
  have noinf: "s \<noteq> ''inf''" "s \<noteq> ''infinity''" "s \<noteq> ''nan''"
    using pc[of "CHR ''i''"] pc[of "CHR ''n''"] by auto
  have ne: "\<forall>c \<in> set s. c \<noteq> CHR ''e'' \<and> c \<noteq> CHR ''E''"
    using pc by simp
  have tw: "takeWhile (\<lambda>c. c \<noteq> CHR ''e'' \<and> c \<noteq> CHR ''E'') s = s"
    using ne by (simp add: takeWhile_eq_all_conv)
  have dw: "dropWhile (\<lambda>c. c \<noteq> CHR ''e'' \<and> c \<noteq> CHR ''E'') s = []"
    using ne by simp
  have fn: "float_number s = float_mantissa s"
    unfolding float_number_def Let_def tw dw by (simp split: option.splits)
  have "py_float s = (case float_number s of None \<Rightarrow> None | Some q \<Rightarrow> Some (Fin q))"
    apply (subst py_float_def)
    apply (subst st)
    apply (subst Let_def)
    apply (subst neg)
    apply (subst Let_def)
    apply (subst sign)
    apply (subst Let_def)
    apply (subst lw)
    apply (subst Let_def)
    apply (simp only: noinf if_False simp_thms)
    done
  then show ?thesis
    by (simp add: fn split: option.splits)
qed

lemma float_mantissa_digits:
  assumes "list_all is_digit s"
  shows "float_mantissa s = None \<longleftrightarrow> \<not> decimal_number s"
proof -
  have nd: "\<forall>x \<in> set s. x \<noteq> CHR ''.''"
    using assms by (auto simp: list_all_iff dot_facts)
  have tw: "takeWhile (\<lambda>c. c \<noteq> CHR ''.'') s = s"
    using nd by (simp add: takeWhile_eq_all_conv)
  have dw: "dropWhile (\<lambda>c. c \<noteq> CHR ''.'') s = []"
    using nd by simp
  have nodot: "filter (\<lambda>c. c = CHR ''.'') s = []"
    using nd by (auto simp: filter_empty_conv)
  have ex: "list_ex is_digit s = (s \<noteq> [])"
    using assms by (cases s) auto
  have al: "list_all (\<lambda>c. is_digit c \<or> c = CHR ''.'') s"
    using assms by (auto simp: list_all_iff)
  show ?thesis
    by (simp add: float_mantissa_def decimal_number_def tw dw nodot ex al
          digitpart_digits[OF assms])
qed

lemma float_mantissa_dotted:
  assumes ipd: "list_all is_digit ip"
    and fpP: "list_all (\<lambda>c. is_digit c \<or> c = CHR ''.'') fp"
  shows "float_mantissa (ip @ CHR ''.'' # fp) = None \<longleftrightarrow> \<not> decimal_number (ip @ CHR ''.'' # fp)"
proof -
  have nd: "\<forall>x \<in> set ip. x \<noteq> CHR ''.''"
    using ipd by (auto simp: list_all_iff dot_facts)
  have tw: "takeWhile (\<lambda>c. c \<noteq> CHR ''.'') (ip @ CHR ''.'' # fp) = ip"
    using nd by (simp add: takeWhile_append2)
  have dw: "dropWhile (\<lambda>c. c \<noteq> CHR ''.'') (ip @ CHR ''.'' # fp) = CHR ''.'' # fp"
    using nd by (simp add: dropWhile_append2)
  have ipnodot: "filter (\<lambda>c. c = CHR ''.'') ip = []"
    using nd by (auto simp: filter_empty_conv)
  have exip: "list_ex is_digit ip = (ip \<noteq> [])"
    using ipd by (cases ip) auto
  have al: "list_all (\<lambda>c. is_digit c \<or> c = CHR ''.'') (ip @ CHR ''.'' # fp)"
    using ipd fpP by (auto simp: list_all_iff)
  have dn: "decimal_number (ip @ CHR ''.'' # fp)
              \<longleftrightarrow> filter (\<lambda>c. c = CHR ''.'') fp = [] \<and> (ip \<noteq> [] \<or> list_ex is_digit fp)"
    using al by (auto simp: decimal_number_def ipnodot exip dot_facts)
  have fm: "float_mantissa (ip @ CHR ''.'' # fp) = None
              \<longleftrightarrow> \<not> ((ip = [] \<and> digitpart fp) \<or> (ip \<noteq> [] \<and> (fp = [] \<or> digitpart fp)))"
    by (simp add: float_mantissa_def tw dw digitpart_digits[OF ipd])
  show ?thesis
  proof (cases "CHR ''.'' \<in> set fp")
    case True
    then have "\<not> digitpart fp" "fp \<noteq> []" using digitpart_no_dot by auto
    moreover have "filter (\<lambda>c. c = CHR ''.'') fp \<noteq> []"
      using True by (auto simp: filter_empty_conv)
    ultimately show ?thesis by (simp add: fm dn)
  next
    case False
    then have fpd: "list_all is_digit fp"
      using fpP by (auto simp: list_all_iff)
    have c0: "filter (\<lambda>c. c = CHR ''.'') fp = []"
      using False by (auto simp: filter_empty_conv)
    have exfp: "list_ex is_digit fp = (fp \<noteq> [])"
      using fpd by (cases fp) auto
    show ?thesis
      by (auto simp: fm dn c0 exfp digitpart_digits[OF fpd])
  qed
qed

lemma float_mantissa_decimal:
  assumes "list_all (\<lambda>c. is_digit c \<or> c = CHR ''.'') s"
  shows "float_mantissa s = None \<longleftrightarrow> \<not> decimal_number s"
proof (cases "CHR ''.'' \<in> set s")
  case False
  then have "list_all is_digit s" using assms by (auto simp: list_all_iff)
  then show ?thesis by (rule float_mantissa_digits)
next
  case True
  then obtain ip fp where s: "s = ip @ CHR ''.'' # fp" and ip: "CHR ''.'' \<notin> set ip"
    by (auto dest: split_list_first)
  have ipd: "list_all is_digit ip" using assms ip by (auto simp: s list_all_iff)
  have fpP: "list_all (\<lambda>c. is_digit c \<or> c = CHR ''.'') fp" using assms by (simp add: s)
  show ?thesis unfolding s by (rule float_mantissa_dotted[OF ipd fpP])
qed

lemma cleaned_chars:
  "list_all (\<lambda>c. is_digit c \<or> c = CHR ''.'') (py_remove (CHR '','') (price_chars s))"
  by (auto simp: list_all_iff py_remove_def price_chars_def)

lemma extract_numeric_price_alt:
  "extract_numeric_price s = map_option Fin (float_mantissa (py_remove (CHR '','') (price_chars s)))"
  using py_float_plain[OF cleaned_chars[of s]]
  by (simp add: extract_numeric_price_def Let_def)

text \<open>
  C3. For every string, \<open>extract_numeric_price\<close> returns a number that is not negative,
  or no value; the model is a total function, so no exception leaves it. It returns no
  value when the string cleaned to digits, dots and commas is empty, and exactly when
  that string without its commas is not a decimal number.
\<close>

theorem extract_numeric_price_total:
  "(case extract_numeric_price s of None \<Rightarrow> True | Some v \<Rightarrow> fle (Fin 0) v) \<and>
   (price_chars s = [] \<longrightarrow> extract_numeric_price s = None) \<and>
   (extract_numeric_price s = None \<longleftrightarrow> \<not> decimal_number (py_remove (CHR '','') (price_chars s)))"
proof -
  have a: "case extract_numeric_price s of None \<Rightarrow> True | Some v \<Rightarrow> fle (Fin 0) v"
    by (auto simp: extract_numeric_price_alt split: option.splits dest: float_mantissa_nonneg)
  have c: "extract_numeric_price s = None \<longleftrightarrow> \<not> decimal_number (py_remove (CHR '','') (price_chars s))"
    using float_mantissa_decimal[OF cleaned_chars[of s]]
    by (auto simp: extract_numeric_price_alt)
  have b: "price_chars s = [] \<longrightarrow> extract_numeric_price s = None"
    by (simp add: c decimal_number_def py_remove_def)
  from a b c show ?thesis by blast
qed


theorem extract_numeric_price_total_witness:
  "extract_numeric_price ''AED 1,299.00'' = Some (Fin 1299) \<and> fle (Fin 0) (Fin 1299) \<and>
   price_chars ''Price not available'' = [] \<and>
   extract_numeric_price ''Price not available'' = None \<and>
   \<not> decimal_number (py_remove (CHR '','') (price_chars ''v1.2.3'')) \<and>
   extract_numeric_price ''v1.2.3'' = None"
proof -
  have e1: "extract_numeric_price ''AED 1,299.00'' = Some (Fin 1299)"
    by code_simp
  have e2: "price_chars ''Price not available'' = []"
    by code_simp
  have e3: "\<not> decimal_number (py_remove (CHR '','') (price_chars ''v1.2.3''))"
    by code_simp
  show ?thesis
    using extract_numeric_price_total[of "''AED 1,299.00''"]
      extract_numeric_price_total[of "''Price not available''"]
      extract_numeric_price_total[of "''v1.2.3''"] e1 e2 e3
    by simp
qed



subsection \<open>The input file\<close>

lemma parse_items_append:
  "parse_items_from_file (FileLines (xs @ ys))
     = parse_items_from_file (FileLines xs) @ parse_items_from_file (FileLines ys)"
  by (simp add: parse_items_from_file_def)

lemma parse_items_single: "parse_items_from_file (FileLines [l]) = parse_line l"
  by (simp add: parse_items_from_file_def)

text \<open>
  C6. The line \<open>Desk Lamp,150\<close> gives the item \<open>Desk Lamp\<close> with the ceiling 150, the
  line \<open>Desk Lamp,abc\<close> the item \<open>Desk Lamp\<close> without a ceiling. A blank line and a
  line that starts with \<open>#\<close> give no item. A line with a price that is not a float
  gives its item without a ceiling, and the lines before and after it are parsed as
  they are without it.
\<close>

theorem parse_items_from_file_lines:
  "parse_items_from_file (FileLines [''Desk Lamp,150''])
     = [\<lparr> name = ''Desk Lamp'', max_price = Some (Fin 150) \<rparr>] \<and>
   parse_items_from_file (FileLines [''Desk Lamp,abc''])
     = [\<lparr> name = ''Desk Lamp'', max_price = None \<rparr>] \<and>
   (\<forall>before l after. py_strip l = [] \<or> startswith (py_strip l) ''#'' \<longrightarrow>
      parse_items_from_file (FileLines (before @ [l] @ after))
        = parse_items_from_file (FileLines before) @ parse_items_from_file (FileLines after)) \<and>
   (\<forall>before l after item_name p rest.
      py_strip l \<noteq> [] \<and> \<not> startswith (py_strip l) ''#'' \<and> py_in '','' (py_strip l) \<and>
      map py_strip (split_on (CHR '','') (py_strip l)) = item_name # p # rest \<and>
      py_float p = None \<longrightarrow>
      parse_items_from_file (FileLines (before @ [l] @ after))
        = parse_items_from_file (FileLines before) @ [\<lparr> name = item_name, max_price = None \<rparr>]
          @ parse_items_from_file (FileLines after))"
proof -
  have a: "parse_items_from_file (FileLines [''Desk Lamp,150''])
     = [\<lparr> name = ''Desk Lamp'', max_price = Some (Fin 150) \<rparr>]"
    by code_simp
  have b: "parse_items_from_file (FileLines [''Desk Lamp,abc''])
     = [\<lparr> name = ''Desk Lamp'', max_price = None \<rparr>]"
    by code_simp
  have c: "parse_line l = []" if "py_strip l = [] \<or> startswith (py_strip l) ''#''" for l
    using that by (auto simp: parse_line_def Let_def)
  have d: "parse_line l = [\<lparr> name = item_name, max_price = None \<rparr>]"
    if "py_strip l \<noteq> []" "\<not> startswith (py_strip l) ''#''" "py_in '','' (py_strip l)"
       "map py_strip (split_on (CHR '','') (py_strip l)) = item_name # p # rest"
       "py_float p = None" for l item_name p rest
    using that by (simp add: parse_line_def Let_def)
  have c': "parse_items_from_file (FileLines (before @ [l] @ after))
        = parse_items_from_file (FileLines before) @ parse_items_from_file (FileLines after)"
    if "py_strip l = [] \<or> startswith (py_strip l) ''#''" for before l after
    using c[OF that] by (simp add: parse_items_from_file_def)
  have d': "parse_items_from_file (FileLines (before @ [l] @ after))
        = parse_items_from_file (FileLines before) @ [\<lparr> name = item_name, max_price = None \<rparr>]
          @ parse_items_from_file (FileLines after)"
    if "py_strip l \<noteq> [] \<and> \<not> startswith (py_strip l) ''#'' \<and> py_in '','' (py_strip l) \<and>
      map py_strip (split_on (CHR '','') (py_strip l)) = item_name # p # rest \<and>
      py_float p = None" for before l after item_name p rest
    using d[of l item_name p rest] that by (simp add: parse_items_from_file_def)
  show ?thesis
  proof (intro conjI)
    show "parse_items_from_file (FileLines [''Desk Lamp,150''])
            = [\<lparr> name = ''Desk Lamp'', max_price = Some (Fin 150) \<rparr>]"
      by (rule a)
    show "parse_items_from_file (FileLines [''Desk Lamp,abc''])
            = [\<lparr> name = ''Desk Lamp'', max_price = None \<rparr>]"
      by (rule b)
  qed (intro allI impI, erule c', intro allI impI, erule d')
qed

theorem parse_items_from_file_lines_witness:
  "parse_items_from_file
     (FileLines [''Shelf,20'', ''# lamps'', ''   '', ''Desk Lamp,abc'', ''Chair''])
   = [\<lparr> name = ''Shelf'', max_price = Some (Fin 20) \<rparr>,
      \<lparr> name = ''Desk Lamp'', max_price = None \<rparr>,
      \<lparr> name = ''Chair'', max_price = None \<rparr>]"
proof -
  have e1: "py_strip ''Desk Lamp,abc'' \<noteq> [] \<and> \<not> startswith (py_strip ''Desk Lamp,abc'') ''#'' \<and>
      py_in '','' (py_strip ''Desk Lamp,abc'') \<and>
      map py_strip (split_on (CHR '','') (py_strip ''Desk Lamp,abc'')) = ''Desk Lamp'' # ''abc'' # [] \<and>
      py_float ''abc'' = None"
    by code_simp
  have e2: "parse_items_from_file (FileLines [''Shelf,20'', ''# lamps'', ''   ''])
              = [\<lparr> name = ''Shelf'', max_price = Some (Fin 20) \<rparr>]"
    by code_simp
  have e3: "parse_items_from_file (FileLines [''Chair'']) = [\<lparr> name = ''Chair'', max_price = None \<rparr>]"
    by code_simp
  have "parse_items_from_file
          (FileLines ([''Shelf,20'', ''# lamps'', ''   ''] @ [''Desk Lamp,abc''] @ [''Chair'']))
        = parse_items_from_file (FileLines [''Shelf,20'', ''# lamps'', ''   ''])
          @ [\<lparr> name = ''Desk Lamp'', max_price = None \<rparr>]
          @ parse_items_from_file (FileLines [''Chair''])"
    using parse_items_from_file_lines
            [THEN conjunct2, THEN conjunct2, THEN conjunct2, rule_format, OF e1,
             where before = "[''Shelf,20'', ''# lamps'', ''   '']" and after = "[''Chair'']"]
    .
  then show ?thesis by (simp add: e2 e3)
qed

subsection \<open>The record builders\<close>

lemma namshi_pattern_floor:
  "namshi_pattern_price full_text rs pv = Some (p, Some v) \<Longrightarrow>
     (p, Some v) = pv \<or> fgt v (Fin 10)"
  by (induction rs) (auto simp: Let_def split: option.splits if_splits)

text \<open>
  C8 holds for Namshi, whose loop over the patterns compares the float of the match
  with 10 (\<open>namshi_pattern_floor\<close>). The loop of Noon removes the commas and the point
  of the match and compares the integer of the remaining digits with 50. For an element
  with the text \<open>Desk lamp shade\<close>, \<open>12.50 AED\<close> no price selector matches, the first
  pattern matches \<open>12.50\<close>, 1250 is above 50, and the record has the price 12.5, which
  is not above 50.
\<close>

theorem noon_floor_ignores_decimal_point:
  "noon_price_cascade (bare_element ''Desk lamp shade\<newline>12.50 AED'') noon_price_selectors
     price_not_available = price_not_available \<and>
   extract_simple_product_info (bare_element ''Desk lamp shade\<newline>12.50 AED'') ''lamp''
     = Some \<lparr> title = ''Desk lamp shade'', price = ''AED 12.50'',
              price_value = Some (Fin (25 / 2)) \<rparr> \<and>
   \<not> fgt (Fin (25 / 2)) (Fin 50)"
  by code_simp

lemma amazon_title_default:
  assumes "\<not> str_truthy (amazon_title_cascade e amazon_title_selectors None)"
    and "find amazon_title_line (text_lines full_text) = None"
  shows "amazon_title e full_text = ''Unknown Product''"
proof -
  have c: "clean_title 150 ''Unknown Product'' = ''Unknown Product''"
    by code_simp
  show ?thesis
    using assms by (auto simp: amazon_title_def str_truthy_def c split: option.splits)
qed

text \<open>
  C9 holds where every title selector finds nothing or an empty text
  (\<open>amazon_title_default\<close>). A selector that finds a text of at most ten characters does
  not end the loop, but the text stays in the variable \<open>title\<close>, the fallback over the
  lines is not entered and the default is not assigned. For an element of Amazon with
  the text \<open>Lamp\<close>, \<open>AED 150.00 delivery\<close> whose first title selector finds \<open>Lamp\<close>, no
  title strategy and no line qualifies, and the title of the record is \<open>Lamp\<close>; the
  record builder of Noon does the same.
\<close>

theorem short_title_kept_instead_of_default:
  "\<not> longer_than 10
       (amazon_title_cascade
          (priced_element ''Lamp\<newline>AED 150.00 delivery'' ''h2 a span'' ''Lamp'')
          amazon_title_selectors None) \<and>
   find amazon_title_line (text_lines ''Lamp\<newline>AED 150.00 delivery'') = None \<and>
   extract_amazon_product_info
       (priced_element ''Lamp\<newline>AED 150.00 delivery'' ''h2 a span'' ''Lamp'') ''lamp''
     = Some \<lparr> title = ''Lamp'', price = ''Price not available'', price_value = None \<rparr> \<and>
   \<not> longer_than 10
       (noon_title_cascade
          (priced_element ''Lamp\<newline>AED 150.00 only'' ''h2'' ''Lamp'')
          noon_title_selectors None) \<and>
   find noon_title_line (text_lines ''Lamp\<newline>AED 150.00 only'') = None \<and>
   map_option title
       (extract_simple_product_info
          (priced_element ''Lamp\<newline>AED 150.00 only'' ''h2'' ''Lamp'') ''lamp'')
     = Some ''Lamp'' \<and>
   ''Lamp'' \<noteq> ''Unknown Product''"
  by code_simp

end
